theory Spec2Isabelle
  imports Main
begin

section \<open>The cloud repository client (src/CloudRepository.js)\<close>

text \<open>
  The module exports one factory, \<open>repository(notary, cloudURL, debug)\<close>, whose result
  offers fifteen asynchronous operations. Each operation mints credentials with the
  private function \<open>generateCredentials\<close> and sends one HTTP request with the private
  function \<open>sendRequest\<close>. The collaborators the module calls but does not define
  (the notary, the component framework \<open>bali\<close>, the HTTP library \<open>axios\<close> and the error
  console) are parameters of the model, and every call to one of them is recorded in an
  explicit \<open>world\<close> that the functions pass along.
\<close>

subsection \<open>JavaScript values\<close>

text \<open>
  The values that reach the module from its callers and from the network. \<open>Object s\<close>
  is any object (always truthy) whose \<open>toString()\<close> yields \<open>s\<close>.
\<close>

datatype js_value =
    Undefined
  | Boolean bool
  | Number int
  | String string
  | Object string

text \<open>JavaScript truthiness, as tested by \<open>v ? a : b\<close>, \<open>v || d\<close> and \<open>if (v)\<close>.\<close>

fun truthy :: "js_value \<Rightarrow> bool" where
  "truthy Undefined = False"
| "truthy (Boolean b) = b"
| "truthy (Number n) = (n \<noteq> 0)"
| "truthy (String s) = (s \<noteq> [])"
| "truthy (Object s) = True"

fun decimal :: "nat \<Rightarrow> string" where
  "decimal n =
     (if n < 10 then [char_of (48 + n)]
      else decimal (n div 10) @ [char_of (48 + n mod 10)])"

declare decimal.simps [simp del]

text \<open>
  \<open>v.toString()\<close>. The source calls it on truthy values only; for \<open>undefined\<close> the call
  would raise, and the model never evaluates it there. Integers print in decimal (which
  is what JavaScript does below \<open>10^21\<close>).
\<close>

fun toString :: "js_value \<Rightarrow> string" where
  "toString Undefined = ''undefined''"
| "toString (Boolean b) = (if b then ''true'' else ''false'')"
| "toString (Number n) = (if n < 0 then ''-'' @ decimal (nat (- n)) else decimal (nat n))"
| "toString (String s) = s"
| "toString (Object s) = s"

subsection \<open>Components, documents and thrown values\<close>

text \<open>
  The attribute values handed to \<open>bali.exception\<close> and to \<open>setParameter\<close>:
  \<open>bali.NONE\<close>, a JavaScript value passed as it is, \<open>bali.text(v)\<close> and
  \<open>bali.reference(url)\<close>. The framework's constructors are kept uninterpreted.
\<close>

datatype component =
    NONE
  | Plain js_value
  | Text js_value
  | Reference string

text \<open>\<open>v || bali.NONE\<close>\<close>

definition or_NONE :: "js_value \<Rightarrow> component" where
  "or_NONE v = (if truthy v then Plain v else NONE)"

text \<open>
  The repository address is a reference object or \<open>undefined\<close>; the model keeps the
  string that \<open>cloudURL.getValue().toString()\<close> yields. \<open>cloudURL || bali.NONE\<close>:
\<close>

definition url_or_NONE :: "string option \<Rightarrow> component" where
  "url_or_NONE cloudURL = (case cloudURL of None \<Rightarrow> NONE | Some u \<Rightarrow> Reference u)"

text \<open>\<open>id ? bali.text(id) : bali.NONE\<close>\<close>

definition text_or_NONE :: "string \<Rightarrow> component" where
  "text_or_NONE identifier = (if identifier \<noteq> [] then Text (String identifier) else NONE)"

text \<open>A parameterized document: an opaque body and its parameters.\<close>

record document =
  body :: string
  parameters :: "string \<rightharpoonup> component"

text \<open>What \<open>axios\<close> resolves with, and the request object an axios error may carry.\<close>

record http_response =
  response_status :: int
  response_statusText :: string
  response_data :: js_value

record http_request =
  request_status :: js_value
  request_statusText :: js_value

record axios_error =
  error_response :: "http_response option"
  error_request :: "http_request option"

text \<open>
  Everything that can be thrown: an exception built by \<open>bali.exception(attributes, cause)\<close>
  (the cause is optional), the error a rejected axios promise carries, and any other error
  (a \<open>TypeError\<close>, or whatever a collaborator raises).
\<close>

datatype thrown =
    Exception "(string \<times> component) list" "thrown option"
  | Rejection axios_error
  | Error string

fun attributes :: "thrown \<Rightarrow> (string \<times> component) list" where
  "attributes (Exception as c) = as"
| "attributes (Rejection e) = []"
| "attributes (Error m) = []"

fun cause_of :: "thrown \<Rightarrow> thrown option" where
  "cause_of (Exception as c) = c"
| "cause_of (Rejection e) = None"
| "cause_of (Error m) = None"

text \<open>The attribute of an exception under a key, if it has one.\<close>

definition attribute :: "thrown \<Rightarrow> string \<Rightarrow> component option" where
  "attribute x k = map_of (attributes x) k"

text \<open>The property reads \<open>cause.response\<close> and \<open>cause.request\<close> of a caught value.\<close>

fun response_of :: "thrown \<Rightarrow> http_response option" where
  "response_of (Rejection e) = error_response e"
| "response_of (Exception as c) = None"
| "response_of (Error m) = None"

fun request_of :: "thrown \<Rightarrow> http_request option" where
  "request_of (Rejection e) = error_request e"
| "request_of (Exception as c) = None"
| "request_of (Error m) = None"

text \<open>
  \<open>bali.exception(attributes, cause)\<close>. The framework is not part of the repository;
  this is its contract: when the cause is itself an exception of the framework that names
  the same module as the attributes, the cause is returned as it is (it is not wrapped
  again); for any other cause a new exception with the attributes and the cause is built.
  Called without a cause, it builds \<open>Exception attributes None\<close>. The framework reads
  the strings among the attributes as its own notation; the model covers the inputs for
  which they are.
\<close>

fun same_module :: "(string \<times> component) list \<Rightarrow> thrown \<Rightarrow> bool" where
  "same_module attrs (Exception as c) =
     (case map_of as ''$module'' of
        None \<Rightarrow> False
      | Some m \<Rightarrow> map_of attrs ''$module'' = Some m)"
| "same_module attrs (Rejection e) = False"
| "same_module attrs (Error m) = False"

definition bali_exception :: "(string \<times> component) list \<Rightarrow> thrown \<Rightarrow> thrown" where
  "bali_exception attrs cause =
     (if same_module attrs cause then cause else Exception attrs (Some cause))"

subsection \<open>The world and the collaborators\<close>

text \<open>The \<open>options\<close> object that \<open>sendRequest\<close> hands to \<open>axios\<close>.\<close>

record options =
  options_url :: string
  options_method :: string
  options_responseType :: string
  options_validateStatus :: "int \<Rightarrow> bool"
  options_headers :: "(string \<times> js_value) list"
  options_data :: "string option"

text \<open>
  The observable history: the HTTP calls issued through \<open>axios\<close>, the lines written with
  \<open>console.error\<close>, the documents handed to \<open>notary.notarizeDocument\<close>, and how many
  tags and versions the framework has generated so far.
\<close>

record world =
  requests :: "options list"
  console :: "string list"
  notarized :: "document list"
  tags_drawn :: nat
  versions_drawn :: nat

text \<open>What happens to a request on the network.\<close>

datatype exchange =
    Responded http_request http_response
  | NoResponse http_request
  | NotSent

text \<open>
  The framework and the network. \<open>tags n\<close> is the value of the \<open>n\<close>-th call of
  \<open>bali.tag()\<close> (a random tag in the framework), \<open>versions n\<close> that of the \<open>n\<close>-th call
  of \<open>bali.version()\<close>; \<open>format\<close> is \<open>bali.format(credentials, -1)\<close>; \<open>show_exception\<close> is
  \<open>exception.toString()\<close>; \<open>transport\<close> decides, from the request and the history,
  what the network does.
\<close>

record env =
  tags :: "nat \<Rightarrow> component"
  versions :: "nat \<Rightarrow> component"
  format :: "document \<Rightarrow> string"
  show_exception :: "thrown \<Rightarrow> string"
  transport :: "options \<Rightarrow> world \<Rightarrow> exchange"

text \<open>The digital notary: its three methods, each a function of the history.\<close>

record notary =
  getAccount :: js_value
  getCitation :: "world \<Rightarrow> thrown + document"
  notarizeDocument :: "document \<Rightarrow> world \<Rightarrow> thrown + document"

subsection \<open>Asynchronous functions that may throw\<close>

type_synonym 'a async = "world \<Rightarrow> (thrown + 'a) \<times> world"

definition return :: "'a \<Rightarrow> 'a async" where
  "return x w = (Inr x, w)"

definition throw :: "thrown \<Rightarrow> 'a async" where
  "throw x w = (Inl x, w)"

text \<open>\<open>const x = await m; k(x)\<close>: a rejection of \<open>m\<close> skips the rest.\<close>

definition await :: "'a async \<Rightarrow> ('a \<Rightarrow> 'b async) \<Rightarrow> 'b async" where
  "await m k w = (case m w of (Inl x, w') \<Rightarrow> (Inl x, w') | (Inr v, w') \<Rightarrow> k v w')"

text \<open>\<open>try { m } catch (cause) { h(cause) }\<close>\<close>

definition try_catch :: "'a async \<Rightarrow> (thrown \<Rightarrow> 'a async) \<Rightarrow> 'a async" where
  "try_catch m h w = (case m w of (Inl x, w') \<Rightarrow> h x w' | (Inr v, w') \<Rightarrow> (Inr v, w'))"

text \<open>\<open>if (debug) console.error(exception.toString())\<close>\<close>

definition console_error :: "bool \<Rightarrow> string \<Rightarrow> world \<Rightarrow> world" where
  "console_error debug line w = (if debug then w\<lparr>console := console w @ [line]\<rparr> else w)"

text \<open>\<open>bali.tag()\<close> and \<open>bali.version()\<close>: the next value of each supply.\<close>

definition bali_tag :: "env \<Rightarrow> component async" where
  "bali_tag E w = (Inr (tags E (tags_drawn w)), w\<lparr>tags_drawn := Suc (tags_drawn w)\<rparr>)"

definition bali_version :: "env \<Rightarrow> component async" where
  "bali_version E w =
     (Inr (versions E (versions_drawn w)), w\<lparr>versions_drawn := Suc (versions_drawn w)\<rparr>)"

text \<open>\<open>bali.duplicate(citation)\<close>: a copy, so that the citation itself is not changed.\<close>

definition duplicate :: "document \<Rightarrow> document" where
  "duplicate d = d"

text \<open>\<open>document.getParameters().setParameter(key, value)\<close>\<close>

definition setParameter :: "string \<Rightarrow> component \<Rightarrow> document \<Rightarrow> document" where
  "setParameter k v d = d\<lparr>parameters := (parameters d)(k \<mapsto> v)\<rparr>"

text \<open>\<open>await notary.notarizeDocument(document)\<close>, recorded in the history.\<close>

definition notarize :: "notary \<Rightarrow> document \<Rightarrow> document async" where
  "notarize notary d w = (notarizeDocument notary d w, w\<lparr>notarized := notarized w @ [d]\<rparr>)"

text \<open>
  \<open>await axios(options)\<close>. The library is not part of the repository; this is its
  contract: the call is issued; a response whose status passes \<open>validateStatus\<close> resolves
  the promise, any other response rejects it with an error that carries the response (and
  the request); with no response the error carries the request only; a request that
  could not be set up gives an error with neither.
\<close>

definition axios :: "env \<Rightarrow> options \<Rightarrow> http_response async" where
  "axios E opts w =
     (let w' = w\<lparr>requests := requests w @ [opts]\<rparr> in
      case transport E opts w of
        Responded q r \<Rightarrow>
          if options_validateStatus opts (response_status r) then (Inr r, w')
          else (Inl (Rejection \<lparr>error_response = Some r, error_request = Some q\<rparr>), w')
      | NoResponse q \<Rightarrow>
          (Inl (Rejection \<lparr>error_response = None, error_request = Some q\<rparr>), w')
      | NotSent \<Rightarrow>
          (Inl (Rejection \<lparr>error_response = None, error_request = None\<rparr>), w'))"

subsection \<open>generateCredentials\<close>

definition generateCredentials :: "env \<Rightarrow> notary \<Rightarrow> document async" where
  "generateCredentials E notary =
     await (\<lambda>w. (getCitation notary w, w)) (\<lambda>citation.
     let document = duplicate citation in
     await (bali_tag E) (\<lambda>tag.
     let document = setParameter ''$tag'' tag document in
     await (bali_version E) (\<lambda>version.
     let document = setParameter ''$version'' version document;
         document = setParameter ''$permissions'' (Plain (String ''$Private'')) document;
         document = setParameter ''$previous'' NONE document in
     await (notarize notary document) (\<lambda>credentials.
     return credentials))))"

subsection \<open>sendRequest\<close>

text \<open>
  The first part of \<open>sendRequest\<close> (``analyze the parameters''): the nested \<open>switch\<close>
  over the document type and the method. The result is the exception the switch throws,
  or \<open>None\<close> when every \<open>case\<close> ends in \<open>break\<close>. Only the certificate branch puts the
  repository address into its exception.
\<close>

definition analyze :: "string \<Rightarrow> string option \<Rightarrow> string \<Rightarrow> string \<Rightarrow> thrown option" where
  "analyze functionName cloudURL method type =
     (if type = ''certificate'' then
        (if method = ''HEAD'' \<or> method = ''POST'' \<or> method = ''GET'' then None
         else Some (Exception
           [(''$module'', Plain (String ''$CloudRepository'')),
            (''$function'', Plain (String functionName)),
            (''$exception'', Plain (String ''$invalidParameter'')),
            (''$url'', url_or_NONE cloudURL),
            (''$method'', Text (String method)),
            (''$type'', Text (String type)),
            (''$text'', Text (String
               ''An invalid method and document type combination was specified.''))]
           None))
      else if type = ''draft'' then
        (if method = ''HEAD'' \<or> method = ''PUT'' \<or> method = ''GET'' \<or> method = ''DELETE''
         then None
         else Some (Exception
           [(''$module'', Plain (String ''$CloudRepository'')),
            (''$function'', Plain (String functionName)),
            (''$exception'', Plain (String ''$invalidParameter'')),
            (''$method'', Text (String method)),
            (''$type'', Text (String type)),
            (''$text'', Text (String
               ''An invalid method and document type combination was specified.''))]
           None))
      else if type = ''document'' then
        (if method = ''HEAD'' \<or> method = ''POST'' \<or> method = ''GET'' then None
         else Some (Exception
           [(''$module'', Plain (String ''$CloudRepository'')),
            (''$function'', Plain (String functionName)),
            (''$exception'', Plain (String ''$invalidParameter'')),
            (''$method'', Text (String method)),
            (''$type'', Text (String type)),
            (''$text'', Text (String
               ''An invalid method and document type combination was specified.''))]
           None))
      else if type = ''type'' then
        (if method = ''HEAD'' \<or> method = ''POST'' \<or> method = ''GET'' then None
         else Some (Exception
           [(''$module'', Plain (String ''$CloudRepository'')),
            (''$function'', Plain (String functionName)),
            (''$exception'', Plain (String ''$invalidParameter'')),
            (''$method'', Text (String method)),
            (''$type'', Text (String type)),
            (''$text'', Text (String
               ''An invalid method and document type combination was specified.''))]
           None))
      else if type = ''queue'' then
        (if method = ''PUT'' \<or> method = ''GET'' then None
         else Some (Exception
           [(''$module'', Plain (String ''$CloudRepository'')),
            (''$function'', Plain (String functionName)),
            (''$exception'', Plain (String ''$invalidParameter'')),
            (''$method'', Text (String method)),
            (''$type'', Text (String type)),
            (''$text'', Text (String
               ''An invalid method and document type combination was specified.''))]
           None))
      else Some (Exception
           [(''$module'', Plain (String ''$CloudRepository'')),
            (''$function'', Plain (String functionName)),
            (''$exception'', Plain (String ''$invalidParameter'')),
            (''$parameter'', Text (String type)),
            (''$text'', Text (String ''An invalid document type was specified.''))]
           None))"

text \<open>\<open>validateStatus\<close>: ``only flag unexpected server errors''.\<close>

definition validateStatus :: "int \<Rightarrow> bool" where
  "validateStatus status = (status < 400 \<or> status = 404)"

text \<open>
  The second part of \<open>sendRequest\<close> (``setup the request URL and options'' and ``add
  headers for the data''): the options object as it is when \<open>axios\<close> is called. The data
  is \<open>document ? document.toString() : undefined\<close>, and it is attached only
  \<open>if (data)\<close>, with its \<open>length\<close> as the content length.
\<close>

definition request_options :: "env \<Rightarrow> document \<Rightarrow> string \<Rightarrow> string \<Rightarrow> js_value \<Rightarrow> options" where
  "request_options E credentials method fullURL document =
     (let options = \<lparr>options_url = fullURL,
                     options_method = method,
                     options_responseType = ''text'',
                     options_validateStatus = validateStatus,
                     options_headers =
                       [(''Nebula-Credentials'',
                         String ([CHR 0x22] @ format E credentials @ [CHR 0x22]))],
                     options_data = None\<rparr>;
          data = (if truthy document then Some (toString document) else None)
      in case data of
           None \<Rightarrow> options
         | Some d \<Rightarrow>
             if d \<noteq> [] then
               options\<lparr>options_data := Some d,
                       options_headers := options_headers options @
                         [(''Content-Type'', String ''application/bali''),
                          (''Content-Length'', Number (int (length d)))]\<rparr>
             else options)"

text \<open>
  The last part of \<open>sendRequest\<close> (``send the request''): the call, the \<open>switch\<close> over the
  method that reads the response, and the \<open>catch\<close> block that turns a rejection into one
  of three exceptions. Reading \<open>cloudURL.getValue()\<close> of an undefined address raises a
  \<open>TypeError\<close> before anything is sent. None of the three exceptions of the \<open>catch\<close>
  block is given a cause.
\<close>

definition dispatch ::
  "env \<Rightarrow> document \<Rightarrow> string \<Rightarrow> string option \<Rightarrow> string \<Rightarrow> string \<Rightarrow> string \<Rightarrow> js_value
     \<Rightarrow> js_value async" where
  "dispatch E credentials functionName cloudURL method type identifier document =
     (case cloudURL of
        None \<Rightarrow> throw (Error ''TypeError'')
      | Some base \<Rightarrow>
          let fullURL = base @ type @ ''/'' @ identifier;
              options = request_options E credentials method fullURL document
          in try_catch
               (await (axios E options) (\<lambda>response.
                  return
                    (if method = ''HEAD'' \<or> method = ''DELETE''
                     then Boolean (response_status response \<noteq> 404)
                     else if truthy (response_data response) then response_data response
                     else Undefined)))
               (\<lambda>cause.
                  case response_of cause of
                    Some r \<Rightarrow>
                      throw (Exception
                        [(''$module'', Plain (String ''$CloudRepository'')),
                         (''$function'', Plain (String functionName)),
                         (''$exception'', Plain (String ''$invalidRequest'')),
                         (''$url'', Reference (options_url options)),
                         (''$method'', Text (String method)),
                         (''$status'', Plain (Number (response_status r))),
                         (''$details'', Text (String (response_statusText r))),
                         (''$text'', Text (String
                            (''The request was rejected by the Bali Nebula'' @
                             [CHR 0xE2, CHR 0x84, CHR 0xA2] @ ''.'')))]
                        None)
                  | None \<Rightarrow>
                      (case request_of cause of
                         Some q \<Rightarrow>
                           throw (Exception
                             [(''$module'', Plain (String ''$CloudRepository'')),
                              (''$function'', Plain (String functionName)),
                              (''$exception'', Plain (String ''$serverDown'')),
                              (''$url'', Reference (options_url options)),
                              (''$method'', Text (String method)),
                              (''$status'', Plain (request_status q)),
                              (''$details'', Text (request_statusText q)),
                              (''$text'', Text (String ''The request received no response.''))]
                             None)
                       | None \<Rightarrow>
                           throw (Exception
                             [(''$module'', Plain (String ''$CloudRepository'')),
                              (''$function'', Plain (String functionName)),
                              (''$exception'', Plain (String ''$malformedRequest'')),
                              (''$url'', Reference (options_url options)),
                              (''$method'', Text (String (options_method options))),
                              (''$text'', Text (String
                                 ''The request was not formed correctly.''))]
                             None))))"

definition sendRequest ::
  "env \<Rightarrow> document \<Rightarrow> string \<Rightarrow> string option \<Rightarrow> string \<Rightarrow> string \<Rightarrow> string \<Rightarrow> js_value
     \<Rightarrow> js_value async" where
  "sendRequest E credentials functionName cloudURL method type identifier document =
     (case analyze functionName cloudURL method type of
        Some exception \<Rightarrow> throw exception
      | None \<Rightarrow> dispatch E credentials functionName cloudURL method type identifier document)"

subsection \<open>The repository object\<close>

text \<open>
  What the closures of the object returned by \<open>repository\<close> capture: the notary, the
  repository address, the debug flag after \<open>debug = debug || false\<close>, and the account
  read once from the notary.
\<close>

record client =
  client_notary :: notary
  client_cloudURL :: "string option"
  client_debug :: bool
  client_account :: js_value

definition repository :: "notary \<Rightarrow> string option \<Rightarrow> bool option \<Rightarrow> client" where
  "repository notary cloudURL debug =
     \<lparr>client_notary = notary,
      client_cloudURL = cloudURL,
      client_debug = (case debug of None \<Rightarrow> False | Some b \<Rightarrow> b),
      client_account = getAccount notary\<rparr>"

text \<open>The last two statements of every \<open>catch\<close> block of the object's functions.\<close>

definition log_and_throw :: "env \<Rightarrow> bool \<Rightarrow> thrown \<Rightarrow> 'a async" where
  "log_and_throw E debug exception w =
     throw exception (console_error debug (show_exception E exception) w)"

text \<open>
  The fifteen functions, in the order of the source. A function without a \<open>return\<close>
  statement yields \<open>undefined\<close>, whatever \<open>sendRequest\<close> gave it. In every
  \<open>catch\<close> block the exception comes from \<open>bali.exception\<close> with the caught value as
  the cause, so an exception that \<open>sendRequest\<close> built (same module) is thrown on as it
  is, and anything else is wrapped.
\<close>

definition certificateExists :: "env \<Rightarrow> client \<Rightarrow> string \<Rightarrow> js_value async" where
  "certificateExists E c certificateId =
     try_catch
       (await (generateCredentials E (client_notary c)) (\<lambda>credentials.
        await (sendRequest E credentials ''$certificateExists'' (client_cloudURL c)
                 ''HEAD'' ''certificate'' certificateId Undefined) (\<lambda>status.
        return status)))
       (\<lambda>cause.
          let exception = bali_exception
               [(''$module'', Plain (String ''$CloudRepository'')),
                (''$function'', Plain (String ''$certificateExists'')),
                (''$exception'', Plain (String ''$unexpected'')),
                (''$account'', or_NONE (client_account c)),
                (''$url'', url_or_NONE (client_cloudURL c)),
                (''$certificateId'', text_or_NONE certificateId),
                (''$text'', Text (String
                (''An unexpected error occurred while attempting '' @
                 ''check to see if the certificate exists.'')))]
               cause
          in log_and_throw E (client_debug c) exception)"

definition fetchCertificate :: "env \<Rightarrow> client \<Rightarrow> string \<Rightarrow> js_value async" where
  "fetchCertificate E c certificateId =
     try_catch
       (await (generateCredentials E (client_notary c)) (\<lambda>credentials.
        await (sendRequest E credentials ''$fetchCertificate'' (client_cloudURL c)
                 ''GET'' ''certificate'' certificateId Undefined) (\<lambda>certificate.
        return certificate)))
       (\<lambda>cause.
          let exception = bali_exception
               [(''$module'', Plain (String ''$CloudRepository'')),
                (''$function'', Plain (String ''$fetchCertificate'')),
                (''$exception'', Plain (String ''$unexpected'')),
                (''$account'', or_NONE (client_account c)),
                (''$url'', url_or_NONE (client_cloudURL c)),
                (''$certificateId'', text_or_NONE certificateId),
                (''$text'', Text (String
                (''An unexpected error occurred while '' @
                 ''attempting to fetch the certificate.'')))]
               cause
          in log_and_throw E (client_debug c) exception)"

definition createCertificate :: "env \<Rightarrow> client \<Rightarrow> string \<Rightarrow> js_value \<Rightarrow> js_value async" where
  "createCertificate E c certificateId certificate =
     try_catch
       (await (generateCredentials E (client_notary c)) (\<lambda>credentials.
        await (sendRequest E credentials ''$createCertificate'' (client_cloudURL c)
                 ''POST'' ''certificate'' certificateId certificate) (\<lambda>_.
        return Undefined)))
       (\<lambda>cause.
          let exception = bali_exception
               [(''$module'', Plain (String ''$CloudRepository'')),
                (''$function'', Plain (String ''$createCertificate'')),
                (''$exception'', Plain (String ''$unexpected'')),
                (''$account'', or_NONE (client_account c)),
                (''$url'', url_or_NONE (client_cloudURL c)),
                (''$certificateId'', text_or_NONE certificateId),
                (''$certificate'', or_NONE certificate),
                (''$text'', Text (String
                (''An unexpected error occurred while '' @
                 ''attempting to create the certificate.'')))]
               cause
          in log_and_throw E (client_debug c) exception)"

definition draftExists :: "env \<Rightarrow> client \<Rightarrow> string \<Rightarrow> js_value async" where
  "draftExists E c draftId =
     try_catch
       (await (generateCredentials E (client_notary c)) (\<lambda>credentials.
        await (sendRequest E credentials ''$draftExists'' (client_cloudURL c)
                 ''HEAD'' ''draft'' draftId Undefined) (\<lambda>status.
        return status)))
       (\<lambda>cause.
          let exception = bali_exception
               [(''$module'', Plain (String ''$CloudRepository'')),
                (''$function'', Plain (String ''$draftExists'')),
                (''$exception'', Plain (String ''$unexpected'')),
                (''$account'', or_NONE (client_account c)),
                (''$url'', url_or_NONE (client_cloudURL c)),
                (''$draftId'', text_or_NONE draftId),
                (''$text'', Text (String
                (''An unexpected error occurred while attempting '' @
                 ''check to see if the draft exists.'')))]
               cause
          in log_and_throw E (client_debug c) exception)"

definition fetchDraft :: "env \<Rightarrow> client \<Rightarrow> string \<Rightarrow> js_value async" where
  "fetchDraft E c draftId =
     try_catch
       (await (generateCredentials E (client_notary c)) (\<lambda>credentials.
        await (sendRequest E credentials ''$fetchDraft'' (client_cloudURL c)
                 ''GET'' ''draft'' draftId Undefined) (\<lambda>draft.
        return draft)))
       (\<lambda>cause.
          let exception = bali_exception
               [(''$module'', Plain (String ''$CloudRepository'')),
                (''$function'', Plain (String ''$fetchDraft'')),
                (''$exception'', Plain (String ''$unexpected'')),
                (''$account'', or_NONE (client_account c)),
                (''$url'', url_or_NONE (client_cloudURL c)),
                (''$draftId'', text_or_NONE draftId),
                (''$text'', Text (String
                (''An unexpected error occurred while '' @
                 ''attempting to fetch the draft.'')))]
               cause
          in log_and_throw E (client_debug c) exception)"

definition saveDraft :: "env \<Rightarrow> client \<Rightarrow> string \<Rightarrow> js_value \<Rightarrow> js_value async" where
  "saveDraft E c draftId draft =
     try_catch
       (await (generateCredentials E (client_notary c)) (\<lambda>credentials.
        await (sendRequest E credentials ''$saveDraft'' (client_cloudURL c)
                 ''PUT'' ''draft'' draftId draft) (\<lambda>_.
        return Undefined)))
       (\<lambda>cause.
          let exception = bali_exception
               [(''$module'', Plain (String ''$CloudRepository'')),
                (''$function'', Plain (String ''$saveDraft'')),
                (''$exception'', Plain (String ''$unexpected'')),
                (''$account'', or_NONE (client_account c)),
                (''$url'', url_or_NONE (client_cloudURL c)),
                (''$draftId'', text_or_NONE draftId),
                (''$draft'', or_NONE draft),
                (''$text'', Text (String
                (''An unexpected error occurred while '' @
                 ''attempting to create the draft.'')))]
               cause
          in log_and_throw E (client_debug c) exception)"

definition deleteDraft :: "env \<Rightarrow> client \<Rightarrow> string \<Rightarrow> js_value async" where
  "deleteDraft E c draftId =
     try_catch
       (await (generateCredentials E (client_notary c)) (\<lambda>credentials.
        await (sendRequest E credentials ''$deleteDraft'' (client_cloudURL c)
                 ''DELETE'' ''draft'' draftId Undefined) (\<lambda>_.
        return Undefined)))
       (\<lambda>cause.
          let exception = bali_exception
               [(''$module'', Plain (String ''$CloudRepository'')),
                (''$function'', Plain (String ''$deleteDraft'')),
                (''$exception'', Plain (String ''$unexpected'')),
                (''$account'', or_NONE (client_account c)),
                (''$url'', url_or_NONE (client_cloudURL c)),
                (''$draftId'', text_or_NONE draftId),
                (''$text'', Text (String
                (''An unexpected error occurred while '' @
                 ''attempting to delete the draft.'')))]
               cause
          in log_and_throw E (client_debug c) exception)"

definition documentExists :: "env \<Rightarrow> client \<Rightarrow> string \<Rightarrow> js_value async" where
  "documentExists E c documentId =
     try_catch
       (await (generateCredentials E (client_notary c)) (\<lambda>credentials.
        await (sendRequest E credentials ''$documentExists'' (client_cloudURL c)
                 ''HEAD'' ''document'' documentId Undefined) (\<lambda>status.
        return status)))
       (\<lambda>cause.
          let exception = bali_exception
               [(''$module'', Plain (String ''$CloudRepository'')),
                (''$function'', Plain (String ''$documentExists'')),
                (''$exception'', Plain (String ''$unexpected'')),
                (''$account'', or_NONE (client_account c)),
                (''$url'', url_or_NONE (client_cloudURL c)),
                (''$documentId'', text_or_NONE documentId),
                (''$text'', Text (String
                (''An unexpected error occurred while attempting '' @
                 ''check to see if the document exists.'')))]
               cause
          in log_and_throw E (client_debug c) exception)"

definition fetchDocument :: "env \<Rightarrow> client \<Rightarrow> string \<Rightarrow> js_value async" where
  "fetchDocument E c documentId =
     try_catch
       (await (generateCredentials E (client_notary c)) (\<lambda>credentials.
        await (sendRequest E credentials ''$fetchDocument'' (client_cloudURL c)
                 ''GET'' ''document'' documentId Undefined) (\<lambda>document.
        return document)))
       (\<lambda>cause.
          let exception = bali_exception
               [(''$module'', Plain (String ''$CloudRepository'')),
                (''$function'', Plain (String ''$fetchDocument'')),
                (''$exception'', Plain (String ''$unexpected'')),
                (''$account'', or_NONE (client_account c)),
                (''$url'', url_or_NONE (client_cloudURL c)),
                (''$documentId'', text_or_NONE documentId),
                (''$text'', Text (String
                (''An unexpected error occurred while '' @
                 ''attempting to fetch the document.'')))]
               cause
          in log_and_throw E (client_debug c) exception)"

definition createDocument :: "env \<Rightarrow> client \<Rightarrow> string \<Rightarrow> js_value \<Rightarrow> js_value async" where
  "createDocument E c documentId document =
     try_catch
       (await (generateCredentials E (client_notary c)) (\<lambda>credentials.
        await (sendRequest E credentials ''$createDocument'' (client_cloudURL c)
                 ''POST'' ''document'' documentId document) (\<lambda>_.
        return Undefined)))
       (\<lambda>cause.
          let exception = bali_exception
               [(''$module'', Plain (String ''$CloudRepository'')),
                (''$function'', Plain (String ''$createDocument'')),
                (''$exception'', Plain (String ''$unexpected'')),
                (''$account'', or_NONE (client_account c)),
                (''$url'', url_or_NONE (client_cloudURL c)),
                (''$documentId'', text_or_NONE documentId),
                (''$document'', or_NONE document),
                (''$text'', Text (String
                (''An unexpected error occurred while '' @
                 ''attempting to create the document.'')))]
               cause
          in log_and_throw E (client_debug c) exception)"

definition typeExists :: "env \<Rightarrow> client \<Rightarrow> string \<Rightarrow> js_value async" where
  "typeExists E c typeId =
     try_catch
       (await (generateCredentials E (client_notary c)) (\<lambda>credentials.
        await (sendRequest E credentials ''$typeExists'' (client_cloudURL c)
                 ''HEAD'' ''type'' typeId Undefined) (\<lambda>status.
        return status)))
       (\<lambda>cause.
          let exception = bali_exception
               [(''$module'', Plain (String ''$CloudRepository'')),
                (''$function'', Plain (String ''$typeExists'')),
                (''$exception'', Plain (String ''$unexpected'')),
                (''$account'', or_NONE (client_account c)),
                (''$url'', url_or_NONE (client_cloudURL c)),
                (''$typeId'', text_or_NONE typeId),
                (''$text'', Text (String
                (''An unexpected error occurred while attempting '' @
                 ''check to see if the type exists.'')))]
               cause
          in log_and_throw E (client_debug c) exception)"

definition fetchType :: "env \<Rightarrow> client \<Rightarrow> string \<Rightarrow> js_value async" where
  "fetchType E c typeId =
     try_catch
       (await (generateCredentials E (client_notary c)) (\<lambda>credentials.
        await (sendRequest E credentials ''$fetchType'' (client_cloudURL c)
                 ''GET'' ''type'' typeId Undefined) (\<lambda>type.
        return type)))
       (\<lambda>cause.
          let exception = bali_exception
               [(''$module'', Plain (String ''$CloudRepository'')),
                (''$function'', Plain (String ''$fetchType'')),
                (''$exception'', Plain (String ''$unexpected'')),
                (''$account'', or_NONE (client_account c)),
                (''$url'', url_or_NONE (client_cloudURL c)),
                (''$typeId'', text_or_NONE typeId),
                (''$text'', Text (String
                (''An unexpected error occurred while '' @
                 ''attempting to fetch the type.'')))]
               cause
          in log_and_throw E (client_debug c) exception)"

definition createType :: "env \<Rightarrow> client \<Rightarrow> string \<Rightarrow> js_value \<Rightarrow> js_value async" where
  "createType E c typeId type =
     try_catch
       (await (generateCredentials E (client_notary c)) (\<lambda>credentials.
        await (sendRequest E credentials ''$createType'' (client_cloudURL c)
                 ''POST'' ''type'' typeId type) (\<lambda>_.
        return Undefined)))
       (\<lambda>cause.
          let exception = bali_exception
               [(''$module'', Plain (String ''$CloudRepository'')),
                (''$function'', Plain (String ''$createType'')),
                (''$exception'', Plain (String ''$unexpected'')),
                (''$account'', or_NONE (client_account c)),
                (''$url'', url_or_NONE (client_cloudURL c)),
                (''$typeId'', text_or_NONE typeId),
                (''$type'', or_NONE type),
                (''$text'', Text (String
                (''An unexpected error occurred while '' @
                 ''attempting to create the type.'')))]
               cause
          in log_and_throw E (client_debug c) exception)"

definition queueMessage :: "env \<Rightarrow> client \<Rightarrow> string \<Rightarrow> js_value \<Rightarrow> js_value async" where
  "queueMessage E c queueId message =
     try_catch
       (await (generateCredentials E (client_notary c)) (\<lambda>credentials.
        await (sendRequest E credentials ''$queueMessage'' (client_cloudURL c)
                 ''PUT'' ''queue'' queueId message) (\<lambda>_.
        return Undefined)))
       (\<lambda>cause.
          let exception = bali_exception
               [(''$module'', Plain (String ''$CloudRepository'')),
                (''$function'', Plain (String ''$queueMessage'')),
                (''$exception'', Plain (String ''$unexpected'')),
                (''$account'', or_NONE (client_account c)),
                (''$url'', url_or_NONE (client_cloudURL c)),
                (''$queueId'', text_or_NONE queueId),
                (''$message'', or_NONE message),
                (''$text'', Text (String
                (''An unexpected error occurred while '' @
                 ''attempting to queue the message.'')))]
               cause
          in log_and_throw E (client_debug c) exception)"

definition dequeueMessage :: "env \<Rightarrow> client \<Rightarrow> string \<Rightarrow> js_value async" where
  "dequeueMessage E c queueId =
     try_catch
       (await (generateCredentials E (client_notary c)) (\<lambda>credentials.
        await (sendRequest E credentials ''$dequeueMessage'' (client_cloudURL c)
                 ''GET'' ''queue'' queueId Undefined) (\<lambda>message.
        return message)))
       (\<lambda>cause.
          let exception = bali_exception
               [(''$module'', Plain (String ''$CloudRepository'')),
                (''$function'', Plain (String ''$dequeueMessage'')),
                (''$exception'', Plain (String ''$unexpected'')),
                (''$account'', or_NONE (client_account c)),
                (''$url'', url_or_NONE (client_cloudURL c)),
                (''$queueId'', text_or_NONE queueId),
                (''$text'', Text (String
                (''An unexpected error occurred while '' @
                 ''attempting to dequeue the message.'')))]
               cause
          in log_and_throw E (client_debug c) exception)"

subsection \<open>The operations as one family\<close>

text \<open>The fifteen operations of the repository object, and a call of any one of them.\<close>

datatype operation =
    CertificateExists | FetchCertificate | CreateCertificate
  | DraftExists | FetchDraft | SaveDraft | DeleteDraft
  | DocumentExists | FetchDocument | CreateDocument
  | TypeExists | FetchType | CreateType
  | QueueMessage | DequeueMessage

fun invoke :: "env \<Rightarrow> client \<Rightarrow> operation \<Rightarrow> string \<Rightarrow> js_value \<Rightarrow> js_value async" where
  "invoke E c CertificateExists i p = certificateExists E c i"
| "invoke E c FetchCertificate i p = fetchCertificate E c i"
| "invoke E c CreateCertificate i p = createCertificate E c i p"
| "invoke E c DraftExists i p = draftExists E c i"
| "invoke E c FetchDraft i p = fetchDraft E c i"
| "invoke E c SaveDraft i p = saveDraft E c i p"
| "invoke E c DeleteDraft i p = deleteDraft E c i"
| "invoke E c DocumentExists i p = documentExists E c i"
| "invoke E c FetchDocument i p = fetchDocument E c i"
| "invoke E c CreateDocument i p = createDocument E c i p"
| "invoke E c TypeExists i p = typeExists E c i"
| "invoke E c FetchType i p = fetchType E c i"
| "invoke E c CreateType i p = createType E c i p"
| "invoke E c QueueMessage i p = queueMessage E c i p"
| "invoke E c DequeueMessage i p = dequeueMessage E c i"

text \<open>
  The tables of the specification, in its words. The method of each operation (exists
  uses HEAD, fetch uses GET, create uses POST, save uses PUT, delete uses DELETE, enqueue
  uses PUT, dequeue uses GET):
\<close>

fun method_mapping :: "operation \<Rightarrow> string" where
  "method_mapping CertificateExists = ''HEAD''"
| "method_mapping FetchCertificate = ''GET''"
| "method_mapping CreateCertificate = ''POST''"
| "method_mapping DraftExists = ''HEAD''"
| "method_mapping FetchDraft = ''GET''"
| "method_mapping SaveDraft = ''PUT''"
| "method_mapping DeleteDraft = ''DELETE''"
| "method_mapping DocumentExists = ''HEAD''"
| "method_mapping FetchDocument = ''GET''"
| "method_mapping CreateDocument = ''POST''"
| "method_mapping TypeExists = ''HEAD''"
| "method_mapping FetchType = ''GET''"
| "method_mapping CreateType = ''POST''"
| "method_mapping QueueMessage = ''PUT''"
| "method_mapping DequeueMessage = ''GET''"

text \<open>The resource kind of each operation:\<close>

fun resource_kind :: "operation \<Rightarrow> string" where
  "resource_kind CertificateExists = ''certificate''"
| "resource_kind FetchCertificate = ''certificate''"
| "resource_kind CreateCertificate = ''certificate''"
| "resource_kind DraftExists = ''draft''"
| "resource_kind FetchDraft = ''draft''"
| "resource_kind SaveDraft = ''draft''"
| "resource_kind DeleteDraft = ''draft''"
| "resource_kind DocumentExists = ''document''"
| "resource_kind FetchDocument = ''document''"
| "resource_kind CreateDocument = ''document''"
| "resource_kind TypeExists = ''type''"
| "resource_kind FetchType = ''type''"
| "resource_kind CreateType = ''type''"
| "resource_kind QueueMessage = ''queue''"
| "resource_kind DequeueMessage = ''queue''"

text \<open>The allowed methods of each resource kind:\<close>

definition allowed_methods :: "(string \<times> string list) list" where
  "allowed_methods =
     [(''certificate'', [''HEAD'', ''GET'', ''POST'']),
      (''draft'', [''HEAD'', ''GET'', ''PUT'', ''DELETE'']),
      (''document'', [''HEAD'', ''GET'', ''POST'']),
      (''type'', [''HEAD'', ''GET'', ''POST'']),
      (''queue'', [''PUT'', ''GET''])]"

definition known_kind :: "string \<Rightarrow> bool" where
  "known_kind kind = (map_of allowed_methods kind \<noteq> None)"

definition permitted :: "string \<Rightarrow> string \<Rightarrow> bool" where
  "permitted kind method =
     (case map_of allowed_methods kind of None \<Rightarrow> False | Some ms \<Rightarrow> method \<in> set ms)"

text \<open>The name each operation reports, and the keys of its identifier and payload.\<close>

fun operation_name :: "operation \<Rightarrow> string" where
  "operation_name CertificateExists = ''$certificateExists''"
| "operation_name FetchCertificate = ''$fetchCertificate''"
| "operation_name CreateCertificate = ''$createCertificate''"
| "operation_name DraftExists = ''$draftExists''"
| "operation_name FetchDraft = ''$fetchDraft''"
| "operation_name SaveDraft = ''$saveDraft''"
| "operation_name DeleteDraft = ''$deleteDraft''"
| "operation_name DocumentExists = ''$documentExists''"
| "operation_name FetchDocument = ''$fetchDocument''"
| "operation_name CreateDocument = ''$createDocument''"
| "operation_name TypeExists = ''$typeExists''"
| "operation_name FetchType = ''$fetchType''"
| "operation_name CreateType = ''$createType''"
| "operation_name QueueMessage = ''$queueMessage''"
| "operation_name DequeueMessage = ''$dequeueMessage''"

definition identifier_key :: "operation \<Rightarrow> string" where
  "identifier_key op = ''$'' @ resource_kind op @ ''Id''"

fun payload_key :: "operation \<Rightarrow> string option" where
  "payload_key CreateCertificate = Some ''$certificate''"
| "payload_key SaveDraft = Some ''$draft''"
| "payload_key CreateDocument = Some ''$document''"
| "payload_key CreateType = Some ''$type''"
| "payload_key QueueMessage = Some ''$message''"
| "payload_key op = None"

text \<open>The operations whose source ends in \<open>return\<close> of what \<open>sendRequest\<close> gave.\<close>

fun returns_outcome :: "operation \<Rightarrow> bool" where
  "returns_outcome CertificateExists = True"
| "returns_outcome FetchCertificate = True"
| "returns_outcome DraftExists = True"
| "returns_outcome FetchDraft = True"
| "returns_outcome DocumentExists = True"
| "returns_outcome FetchDocument = True"
| "returns_outcome TypeExists = True"
| "returns_outcome FetchType = True"
| "returns_outcome DequeueMessage = True"
| "returns_outcome op = False"

text \<open>The seventh argument an operation gives \<open>sendRequest\<close>: its payload, if it takes one.\<close>

definition payload_argument :: "operation \<Rightarrow> js_value \<Rightarrow> js_value" where
  "payload_argument op p = (case payload_key op of None \<Rightarrow> Undefined | Some k \<Rightarrow> p)"

text \<open>
  The \<open>try\<close> block of an operation up to the value \<open>sendRequest\<close> resolves with: fresh
  credentials, then one request. The function that sends is a parameter, so that the
  block can be compared with and without the validation of \<open>sendRequest\<close>.
\<close>

type_synonym sender =
  "env \<Rightarrow> document \<Rightarrow> string \<Rightarrow> string option \<Rightarrow> string \<Rightarrow> string \<Rightarrow> string \<Rightarrow> js_value
     \<Rightarrow> js_value async"

definition attempt :: "sender \<Rightarrow> env \<Rightarrow> client \<Rightarrow> operation \<Rightarrow> string \<Rightarrow> js_value \<Rightarrow> js_value async" where
  "attempt send E c op i p =
     await (generateCredentials E (client_notary c)) (\<lambda>credentials.
       send E credentials (operation_name op) (client_cloudURL c)
         (method_mapping op) (resource_kind op) i (payload_argument op p))"

text \<open>The value thrown and the value returned by a finished call.\<close>

definition thrown_by :: "(thrown + 'a) \<times> world \<Rightarrow> thrown option" where
  "thrown_by r = (case fst r of Inl x \<Rightarrow> Some x | Inr v \<Rightarrow> None)"

definition returned_by :: "(thrown + 'a) \<times> world \<Rightarrow> 'a option" where
  "returned_by r = (case fst r of Inl x \<Rightarrow> None | Inr v \<Rightarrow> Some v)"

text \<open>The kind (\<open>$exception\<close>) of the exception thrown by a finished call, if any.\<close>

definition kind_thrown :: "(thrown + 'a) \<times> world \<Rightarrow> component option" where
  "kind_thrown r = (case fst r of Inl x \<Rightarrow> attribute x ''$exception'' | Inr v \<Rightarrow> None)"

text \<open>An exception built by this module: its \<open>$module\<close> is \<open>$CloudRepository\<close>.\<close>

definition own_exception :: "thrown \<Rightarrow> bool" where
  "own_exception x = (attribute x ''$module'' = Some (Plain (String ''$CloudRepository'')))"

text \<open>The requests a call has issued: those of the final history beyond the initial one.\<close>

definition issued :: "world \<Rightarrow> (thrown + 'a) \<times> world \<Rightarrow> options list" where
  "issued w r = drop (length (requests w)) (requests (snd r))"

text \<open>
  The document that credential generation hands to the notary, in the words of the
  specification: the citation, duplicated, with its parameters overwritten by a freshly
  generated tag, a freshly generated version, the permission private and no predecessor.
  The history \<open>w\<close> is the one in which the generation starts.
\<close>

definition credentials_document :: "env \<Rightarrow> document \<Rightarrow> world \<Rightarrow> document" where
  "credentials_document E citation w =
     citation\<lparr>parameters := (parameters citation)
       (''$tag'' \<mapsto> tags E (tags_drawn w),
        ''$version'' \<mapsto> versions E (versions_drawn w),
        ''$permissions'' \<mapsto> Plain (String ''$Private''),
        ''$previous'' \<mapsto> NONE)\<rparr>"

text \<open>A payload is present when the data that \<open>sendRequest\<close> derives from it is truthy.\<close>

definition payload_present :: "js_value \<Rightarrow> bool" where
  "payload_present p = (truthy p \<and> toString p \<noteq> [])"

subsection \<open>A small test bed\<close>

text \<open>
  Concrete collaborators for evaluating the functions: a notary whose citation has one
  parameter and whose signature leaves the document as it is, a framework that numbers
  its tags, and a network that always does the same thing.
\<close>

definition initial_world :: world where
  "initial_world =
     \<lparr>requests = [], console = [], notarized = [], tags_drawn = 0, versions_drawn = 0\<rparr>"

definition test_citation :: document where
  "test_citation = \<lparr>body = ''citation'', parameters = [''$type'' \<mapsto> Plain (String ''$Citation'')]\<rparr>"

definition test_notary :: notary where
  "test_notary =
     \<lparr>getAccount = Object ''#WTFL0GLK7V5SJBZKCX9NH0KQWH0JYBL9'',
      getCitation = (\<lambda>w. Inr test_citation),
      notarizeDocument = (\<lambda>d w. Inr d)\<rparr>"

definition test_env :: "exchange \<Rightarrow> env" where
  "test_env x =
     \<lparr>tags = (\<lambda>n. Plain (Number (int n))),
      versions = (\<lambda>n. Plain (String ''v1'')),
      format = body,
      show_exception = (\<lambda>x. ''exception''),
      transport = (\<lambda>opts w. x)\<rparr>"

definition test_client :: "bool option \<Rightarrow> client" where
  "test_client debug = repository test_notary (Some ''https://nebula.test/'') debug"

definition responded :: "int \<Rightarrow> js_value \<Rightarrow> exchange" where
  "responded status data =
     Responded \<lparr>request_status = Undefined, request_statusText = Undefined\<rparr>
       \<lparr>response_status = status, response_statusText = ''status'', response_data = data\<rparr>"

definition silent :: http_request where
  "silent = \<lparr>request_status = Number 0, request_statusText = String []\<rparr>"

definition offline_notary :: notary where
  "offline_notary =
     \<lparr>getAccount = Object ''#WTFL0GLK7V5SJBZKCX9NH0KQWH0JYBL9'',
      getCitation = (\<lambda>w. Inl (Error ''offline'')),
      notarizeDocument = (\<lambda>d w. Inr d)\<rparr>"

section \<open>Properties\<close>

subsection \<open>The validation table\<close>

lemma known_kind_iff:
  "known_kind type \<longleftrightarrow>
     type = ''certificate'' \<or> type = ''draft'' \<or> type = ''document'' \<or> type = ''type''
       \<or> type = ''queue''"
  by (simp add: known_kind_def allowed_methods_def)

lemma permitted_iff:
  "permitted type method \<longleftrightarrow>
     (type = ''certificate'' \<and> (method = ''HEAD'' \<or> method = ''GET'' \<or> method = ''POST'')) \<or>
     (type = ''draft'' \<and> (method = ''HEAD'' \<or> method = ''GET'' \<or> method = ''PUT'' \<or> method = ''DELETE'')) \<or>
     (type = ''document'' \<and> (method = ''HEAD'' \<or> method = ''GET'' \<or> method = ''POST'')) \<or>
     (type = ''type'' \<and> (method = ''HEAD'' \<or> method = ''GET'' \<or> method = ''POST'')) \<or>
     (type = ''queue'' \<and> (method = ''PUT'' \<or> method = ''GET''))"
  by (simp add: permitted_def allowed_methods_def)

lemma kind_cases:
  obtains (certificate) "type = ''certificate''"
  | (draft) "type = ''draft''"
  | (document) "type = ''document''"
  | (type) "type = ''type''"
  | (queue) "type = ''queue''"
  | (unknown) "\<not> known_kind type"
  unfolding known_kind_iff by blast

lemma analyze_permitted:
  "analyze functionName cloudURL method type = None \<longleftrightarrow> permitted type method"
proof (cases type rule: kind_cases)
  case certificate
  then show ?thesis by (simp add: analyze_def permitted_iff)
next
  case draft
  then show ?thesis by (simp add: analyze_def permitted_iff)
next
  case document
  then show ?thesis by (simp add: analyze_def permitted_iff)
next
  case type
  then show ?thesis by (simp add: analyze_def permitted_iff)
next
  case queue
  then show ?thesis by (simp add: analyze_def permitted_iff)
next
  case unknown
  then show ?thesis unfolding known_kind_iff by (simp add: analyze_def permitted_iff)
qed


lemma analyze_rejects:
  assumes "\<not> permitted type method"
  shows "\<exists>x. analyze functionName cloudURL method type = Some x
           \<and> cause_of x = None
           \<and> attribute x ''$exception'' = Some (Plain (String ''$invalidParameter''))
           \<and> attribute x ''$function'' = Some (Plain (String functionName))
           \<and> (if known_kind type
               then attribute x ''$method'' = Some (Text (String method))
                  \<and> attribute x ''$type'' = Some (Text (String type))
               else attribute x ''$parameter'' = Some (Text (String type))
                  \<and> attribute x ''$method'' = None)"
proof (cases type rule: kind_cases)
  case certificate
  with assms show ?thesis
    by (simp add: analyze_def permitted_iff known_kind_iff attribute_def)
next
  case draft
  with assms show ?thesis
    by (simp add: analyze_def permitted_iff known_kind_iff attribute_def)
next
  case document
  with assms show ?thesis
    by (simp add: analyze_def permitted_iff known_kind_iff attribute_def)
next
  case type
  with assms show ?thesis
    by (simp add: analyze_def permitted_iff known_kind_iff attribute_def)
next
  case queue
  with assms show ?thesis
    by (simp add: analyze_def permitted_iff known_kind_iff attribute_def)
next
  case unknown
  then show ?thesis
    by (simp add: analyze_def known_kind_iff attribute_def)
qed

text \<open>
  Claim C3, as the code has it. The switch of \<open>sendRequest\<close> lets through exactly the
  combinations of the table: certificate with HEAD, GET, POST; draft with HEAD, GET, PUT,
  DELETE; document and type with HEAD, GET, POST; queue with PUT, GET. For every other
  pair \<open>sendRequest\<close> throws an exception of kind \<open>$invalidParameter\<close> that has no cause,
  and it leaves the history as it was, so that no HTTP call is issued. For a known kind
  the exception carries the method and the kind (as \<open>$method\<close> and \<open>$type\<close>); for an
  unknown kind it carries the kind only (as \<open>$parameter\<close>) and no method.
\<close>

theorem invalid_combination_rejected:
  "(analyze functionName cloudURL method type = None \<longleftrightarrow> permitted type method) \<and>
   (\<not> permitted type method \<longrightarrow>
      (\<exists>x. sendRequest E credentials functionName cloudURL method type identifier document w
              = (Inl x, w)
         \<and> issued w (sendRequest E credentials functionName cloudURL method type identifier
              document w) = []
         \<and> cause_of x = None
         \<and> attribute x ''$exception'' = Some (Plain (String ''$invalidParameter''))
         \<and> (if known_kind type
             then attribute x ''$method'' = Some (Text (String method))
                \<and> attribute x ''$type'' = Some (Text (String type))
             else attribute x ''$parameter'' = Some (Text (String type))
                \<and> attribute x ''$method'' = None)))"
proof (intro conjI impI)
  show "analyze functionName cloudURL method type = None \<longleftrightarrow> permitted type method"
    by (rule analyze_permitted)
next
  assume "\<not> permitted type method"
  from analyze_rejects [OF this, of functionName cloudURL]
  obtain x where x: "analyze functionName cloudURL method type = Some x"
    and rest: "cause_of x = None"
      "attribute x ''$exception'' = Some (Plain (String ''$invalidParameter''))"
      "if known_kind type
       then attribute x ''$method'' = Some (Text (String method))
          \<and> attribute x ''$type'' = Some (Text (String type))
       else attribute x ''$parameter'' = Some (Text (String type))
          \<and> attribute x ''$method'' = None"
    by blast
  have "sendRequest E credentials functionName cloudURL method type identifier document w
          = (Inl x, w)"
    by (simp add: sendRequest_def x throw_def)
  with rest show "\<exists>x. sendRequest E credentials functionName cloudURL method type identifier
      document w = (Inl x, w)
    \<and> issued w (sendRequest E credentials functionName cloudURL method type identifier
              document w) = []
    \<and> cause_of x = None
    \<and> attribute x ''$exception'' = Some (Plain (String ''$invalidParameter''))
    \<and> (if known_kind type
        then attribute x ''$method'' = Some (Text (String method))
           \<and> attribute x ''$type'' = Some (Text (String type))
        else attribute x ''$parameter'' = Some (Text (String type))
           \<and> attribute x ''$method'' = None)"
    by (simp add: issued_def)
qed

text \<open>The theorem at the pair (queue, DELETE).\<close>

theorem invalid_combination_rejected_witness:
  "\<not> permitted ''queue'' ''DELETE'' \<and>
   (\<exists>x. sendRequest (test_env NotSent) test_citation ''$deleteDraft'' (Some ''https://nebula.test/'')
           ''DELETE'' ''queue'' ''q1'' Undefined initial_world = (Inl x, initial_world)
      \<and> attribute x ''$exception'' = Some (Plain (String ''$invalidParameter''))
      \<and> attribute x ''$method'' = Some (Text (String ''DELETE''))
      \<and> attribute x ''$type'' = Some (Text (String ''queue'')))"
proof -
  have h: "\<not> permitted ''queue'' ''DELETE''"
    by (simp add: permitted_def allowed_methods_def)
  have k: "known_kind ''queue''"
    by (simp add: known_kind_def allowed_methods_def)
  from invalid_combination_rejected [of "''$deleteDraft''" "Some ''https://nebula.test/''"
      "''DELETE''" "''queue''" "test_env NotSent" test_citation "''q1''" Undefined initial_world]
    h k
  show ?thesis by auto
qed

text \<open>
  The claim as first stated asks for the offending method in every such exception; the
  exception for the unknown kind \<open>folder\<close> has none.
\<close>

theorem unknown_kind_carries_no_method_counterexample:
  "thrown_by (sendRequest (test_env NotSent) test_citation ''$fetchDraft''
      (Some ''https://nebula.test/'') ''GET'' ''folder'' ''f1'' Undefined initial_world)
     = Some (Exception
         [(''$module'', Plain (String ''$CloudRepository'')),
          (''$function'', Plain (String ''$fetchDraft'')),
          (''$exception'', Plain (String ''$invalidParameter'')),
          (''$parameter'', Text (String ''folder'')),
          (''$text'', Text (String ''An invalid document type was specified.''))]
         None)
   \<and> attribute (Exception
         [(''$module'', Plain (String ''$CloudRepository'')),
          (''$function'', Plain (String ''$fetchDraft'')),
          (''$exception'', Plain (String ''$invalidParameter'')),
          (''$parameter'', Text (String ''folder'')),
          (''$text'', Text (String ''An invalid document type was specified.''))]
         None) ''$method'' = None"
  by (simp add: sendRequest_def analyze_def throw_def thrown_by_def attribute_def)

subsection \<open>Credential generation and the request options\<close>

lemma generateCredentials_eq:
  "generateCredentials E n w =
     (case getCitation n w of
        Inl x \<Rightarrow> (Inl x, w)
      | Inr citation \<Rightarrow>
          (notarizeDocument n (credentials_document E citation w)
             (w\<lparr>tags_drawn := Suc (tags_drawn w), versions_drawn := Suc (versions_drawn w)\<rparr>),
           w\<lparr>tags_drawn := Suc (tags_drawn w), versions_drawn := Suc (versions_drawn w),
             notarized := notarized w @ [credentials_document E citation w]\<rparr>))"
  by (simp add: generateCredentials_def await_def bali_tag_def bali_version_def notarize_def
      return_def duplicate_def setParameter_def credentials_document_def Let_def
      split: sum.splits prod.splits)

lemma generateCredentials_requests:
  "requests (snd (generateCredentials E n w)) = requests w"
  by (simp add: generateCredentials_eq split: sum.splits)

lemma generateCredentials_console:
  "console (snd (generateCredentials E n w)) = console w"
  by (simp add: generateCredentials_eq split: sum.splits)

lemma request_options_fields:
  "options_url (request_options E cred m u d) = u"
  "options_method (request_options E cred m u d) = m"
  "options_validateStatus (request_options E cred m u d) = validateStatus"
  "map_of (options_headers (request_options E cred m u d)) ''Nebula-Credentials''
     = Some (String ([CHR 0x22] @ format E cred @ [CHR 0x22]))"
  by (simp_all add: request_options_def Let_def)

lemma request_options_present:
  assumes "payload_present d"
  shows "options_data (request_options E cred m u d) = Some (toString d)"
    and "map_of (options_headers (request_options E cred m u d)) ''Content-Type''
           = Some (String ''application/bali'')"
    and "map_of (options_headers (request_options E cred m u d)) ''Content-Length''
           = Some (Number (int (length (toString d))))"
  using assms by (simp_all add: request_options_def payload_present_def Let_def)

lemma request_options_absent:
  assumes "\<not> payload_present d"
  shows "request_options E cred m u d = request_options E cred m u Undefined"
    and "options_data (request_options E cred m u d) = None"
    and "map_of (options_headers (request_options E cred m u d)) ''Content-Type'' = None"
    and "map_of (options_headers (request_options E cred m u d)) ''Content-Length'' = None"
  using assms by (auto simp add: request_options_def payload_present_def Let_def)

subsection \<open>The shape of the fifteen operations\<close>

lemmas operation_defs =
  certificateExists_def fetchCertificate_def createCertificate_def
  draftExists_def fetchDraft_def saveDraft_def deleteDraft_def
  documentExists_def fetchDocument_def createDocument_def
  typeExists_def fetchType_def createType_def
  queueMessage_def dequeueMessage_def

lemma try_catch_await_return:
  "try_catch (await m (\<lambda>c. await (k c) (\<lambda>v. return (f v)))) h w =
     (case await m k w of
        (Inl x, w') \<Rightarrow> h x w'
      | (Inr v, w') \<Rightarrow> (Inr (f v), w'))"
  by (simp add: try_catch_def await_def return_def split: prod.splits sum.splits)

lemma invoke_success:
  assumes "attempt sendRequest E c op i p w = (Inr v, w')"
  shows "invoke E c op i p w = (Inr (if returns_outcome op then v else Undefined), w')"
  using assms
  by (cases op)
     (simp_all add: operation_defs attempt_def payload_argument_def try_catch_await_return)

lemma same_module_own:
  assumes "map_of attrs ''$module'' = Some (Plain (String ''$CloudRepository''))"
  shows "same_module attrs cause = own_exception cause"
  using assms
  by (cases cause) (auto simp add: own_exception_def attribute_def split: option.splits)

lemma bali_exception_own:
  assumes "map_of attrs ''$module'' = Some (Plain (String ''$CloudRepository''))"
  shows "bali_exception attrs cause =
           (if own_exception cause then cause else Exception attrs (Some cause))"
  by (simp add: bali_exception_def same_module_own [OF assms])

lemma invoke_failure:
  assumes "attempt sendRequest E c op i p w = (Inl cause, w')"
  shows "\<exists>x. invoke E c op i p w =
            (Inl x, console_error (client_debug c) (show_exception E x) w')
          \<and> (if own_exception cause then x = cause
              else \<exists>as. x = Exception as (Some cause)
                \<and> map_of as ''$exception'' = Some (Plain (String ''$unexpected''))
                \<and> map_of as ''$function'' = Some (Plain (String (operation_name op)))
                \<and> map_of as ''$account'' = Some (or_NONE (client_account c))
                \<and> map_of as ''$url'' = Some (url_or_NONE (client_cloudURL c))
                \<and> map_of as (identifier_key op) = Some (text_or_NONE i)
                \<and> (\<forall>k. payload_key op = Some k \<longrightarrow> map_of as k = Some (or_NONE p)))"
  using assms
  by (cases op)
     (simp_all add: operation_defs attempt_def payload_argument_def try_catch_await_return
        log_and_throw_def throw_def identifier_key_def Let_def bali_exception_own)

subsection \<open>What a request does\<close>

lemma dispatch_undefined_url:
  "dispatch E cred fn None m t i d w = (Inl (Error ''TypeError''), w)"
  by (simp add: dispatch_def throw_def)

text \<open>What the response becomes: the switch over the method.\<close>

lemma dispatch_resolved:
  assumes "transport E (request_options E cred m (base @ t @ ''/'' @ i) d) w = Responded q r"
    and "validateStatus (response_status r)"
  shows "dispatch E cred fn (Some base) m t i d w =
           (Inr (if m = ''HEAD'' \<or> m = ''DELETE'' then Boolean (response_status r \<noteq> 404)
                 else if truthy (response_data r) then response_data r else Undefined),
            w\<lparr>requests := requests w @ [request_options E cred m (base @ t @ ''/'' @ i) d]\<rparr>)"
  using assms
  by (simp add: dispatch_def Let_def try_catch_def await_def axios_def return_def
      request_options_fields)

lemma dispatch_rejected:
  assumes "transport E (request_options E cred m (base @ t @ ''/'' @ i) d) w = Responded q r"
    and "\<not> validateStatus (response_status r)"
  shows "\<exists>as. dispatch E cred fn (Some base) m t i d w =
           (Inl (Exception as None),
            w\<lparr>requests := requests w @ [request_options E cred m (base @ t @ ''/'' @ i) d]\<rparr>)
         \<and> map_of as ''$exception'' = Some (Plain (String ''$invalidRequest''))
         \<and> map_of as ''$function'' = Some (Plain (String fn))
         \<and> map_of as ''$url'' = Some (Reference (base @ t @ ''/'' @ i))
         \<and> map_of as ''$method'' = Some (Text (String m))
         \<and> map_of as ''$status'' = Some (Plain (Number (response_status r)))
         \<and> map_of as ''$details'' = Some (Text (String (response_statusText r)))"
  using assms
  by (simp add: dispatch_def Let_def try_catch_def await_def axios_def return_def throw_def
      request_options_fields)

lemma dispatch_no_response:
  assumes "transport E (request_options E cred m (base @ t @ ''/'' @ i) d) w = NoResponse q"
  shows "\<exists>as. dispatch E cred fn (Some base) m t i d w =
           (Inl (Exception as None),
            w\<lparr>requests := requests w @ [request_options E cred m (base @ t @ ''/'' @ i) d]\<rparr>)
         \<and> map_of as ''$exception'' = Some (Plain (String ''$serverDown''))
         \<and> map_of as ''$function'' = Some (Plain (String fn))
         \<and> map_of as ''$url'' = Some (Reference (base @ t @ ''/'' @ i))
         \<and> map_of as ''$method'' = Some (Text (String m))
         \<and> map_of as ''$status'' = Some (Plain (request_status q))
         \<and> map_of as ''$details'' = Some (Text (request_statusText q))"
  using assms
  by (simp add: dispatch_def Let_def try_catch_def await_def axios_def return_def throw_def
      request_options_fields)

lemma dispatch_not_sent:
  assumes "transport E (request_options E cred m (base @ t @ ''/'' @ i) d) w = NotSent"
  shows "\<exists>as. dispatch E cred fn (Some base) m t i d w =
           (Inl (Exception as None),
            w\<lparr>requests := requests w @ [request_options E cred m (base @ t @ ''/'' @ i) d]\<rparr>)
         \<and> map_of as ''$exception'' = Some (Plain (String ''$malformedRequest''))
         \<and> map_of as ''$function'' = Some (Plain (String fn))
         \<and> map_of as ''$url'' = Some (Reference (base @ t @ ''/'' @ i))
         \<and> map_of as ''$method'' = Some (Text (String m))"
  using assms
  by (simp add: dispatch_def Let_def try_catch_def await_def axios_def return_def throw_def
      request_options_fields)

lemma dispatch_world:
  "snd (dispatch E cred fn (Some base) m t i d w) =
     w\<lparr>requests := requests w @ [request_options E cred m (base @ t @ ''/'' @ i) d]\<rparr>"
proof (cases "transport E (request_options E cred m (base @ t @ ''/'' @ i) d) w")
  case (Responded q r)
  then show ?thesis
    using dispatch_resolved [OF Responded, of fn] dispatch_rejected [OF Responded, of fn]
    by (cases "validateStatus (response_status r)") auto
next
  case (NoResponse q)
  then show ?thesis using dispatch_no_response [OF NoResponse, of fn] by auto
next
  case NotSent
  then show ?thesis using dispatch_not_sent [OF NotSent, of fn] by auto
qed

lemma sendRequest_permitted:
  assumes "permitted t m"
  shows "sendRequest E cred fn url m t i d = dispatch E cred fn url m t i d"
  using assms analyze_permitted [of fn url m t] by (simp add: sendRequest_def)

lemma sendRequest_issued:
  "issued w (sendRequest E cred fn url m t i d w) =
     (case url of
        None \<Rightarrow> []
      | Some base \<Rightarrow>
          if permitted t m then [request_options E cred m (base @ t @ ''/'' @ i) d] else [])"
proof (cases "permitted t m")
  case True
  then show ?thesis
    by (cases url)
       (simp_all add: sendRequest_permitted issued_def dispatch_undefined_url dispatch_world)
next
  case False
  then have "analyze fn url m t \<noteq> None" by (simp add: analyze_permitted)
  then show ?thesis using False
    by (auto simp add: sendRequest_def issued_def throw_def split: option.splits)
qed

lemma sendRequest_world:
  "snd (sendRequest E cred fn url m t i d w) =
     w\<lparr>requests := requests w @ issued w (sendRequest E cred fn url m t i d w)\<rparr>"
proof (cases "permitted t m")
  case True
  then show ?thesis
    by (cases url)
       (simp_all add: sendRequest_permitted issued_def dispatch_undefined_url dispatch_world)
next
  case False
  then have "analyze fn url m t \<noteq> None" by (simp add: analyze_permitted)
  then show ?thesis
    by (auto simp add: sendRequest_def issued_def throw_def)
qed

subsection \<open>The three transport failures\<close>

lemma test_env_simps:
  "transport (test_env x) opts w = x"
  "format (test_env x) = body"
  "tags (test_env x) n = Plain (Number (int n))"
  "versions (test_env x) n = Plain (String ''v1'')"
  "show_exception (test_env x) y = ''exception''"
  by (simp_all add: test_env_def)

lemma test_client_simps:
  "client_notary (test_client debug) = test_notary"
  "client_cloudURL (test_client debug) = Some ''https://nebula.test/''"
  "client_account (test_client debug) = Object ''#WTFL0GLK7V5SJBZKCX9NH0KQWH0JYBL9''"
  "client_debug (test_client None) = False"
  "client_debug (test_client (Some b)) = b"
  by (simp_all add: test_client_def repository_def test_notary_def)

text \<open>
  Claim C4, as the code has it. For a permitted request to a defined address, what the
  network does decides the result of \<open>sendRequest\<close>: a response with a status below 400
  or equal to 404 is no failure; any other response gives an exception of kind
  \<open>$invalidRequest\<close> with the status and the status text; a request that got no response
  gives \<open>$serverDown\<close> with the status and status text of the request object; a request
  that could not be sent gives \<open>$malformedRequest\<close>. Each of the three carries the URL
  and the method, and none of them has a cause: the error that \<open>axios\<close> raised is not
  attached.
\<close>

theorem transport_failures_classified:
  assumes "permitted t m"
    and "opts = request_options E cred m (base @ t @ ''/'' @ i) d"
    and "R = sendRequest E cred fn (Some base) m t i d w"
  shows "(case transport E opts w of
            Responded q r \<Rightarrow>
              if response_status r < 400 \<or> response_status r = 404
              then thrown_by R = None
              else \<exists>x. thrown_by R = Some x \<and> cause_of x = None
                     \<and> attribute x ''$exception'' = Some (Plain (String ''$invalidRequest''))
                     \<and> attribute x ''$status'' = Some (Plain (Number (response_status r)))
                     \<and> attribute x ''$details'' = Some (Text (String (response_statusText r)))
                     \<and> attribute x ''$url'' = Some (Reference (base @ t @ ''/'' @ i))
                     \<and> attribute x ''$method'' = Some (Text (String m))
          | NoResponse q \<Rightarrow>
              \<exists>x. thrown_by R = Some x \<and> cause_of x = None
                \<and> attribute x ''$exception'' = Some (Plain (String ''$serverDown''))
                \<and> attribute x ''$status'' = Some (Plain (request_status q))
                \<and> attribute x ''$details'' = Some (Text (request_statusText q))
                \<and> attribute x ''$url'' = Some (Reference (base @ t @ ''/'' @ i))
                \<and> attribute x ''$method'' = Some (Text (String m))
          | NotSent \<Rightarrow>
              \<exists>x. thrown_by R = Some x \<and> cause_of x = None
                \<and> attribute x ''$exception'' = Some (Plain (String ''$malformedRequest''))
                \<and> attribute x ''$url'' = Some (Reference (base @ t @ ''/'' @ i))
                \<and> attribute x ''$method'' = Some (Text (String m)))"
proof -
  have R: "R = dispatch E cred fn (Some base) m t i d w"
    using assms(1,3) by (simp add: sendRequest_permitted)
  show ?thesis
  proof (cases "transport E opts w")
    case (Responded q r)
    show ?thesis
    proof (cases "validateStatus (response_status r)")
      case True
      with Responded dispatch_resolved [of E cred m base t i d w q r fn] assms(2) R
      show ?thesis by (simp add: thrown_by_def validateStatus_def)
    next
      case False
      with Responded dispatch_rejected [of E cred m base t i d w q r fn] assms(2) R
      show ?thesis by (auto simp add: thrown_by_def validateStatus_def attribute_def)
    qed
  next
    case (NoResponse q)
    with dispatch_no_response [of E cred m base t i d w q fn] assms(2) R
    show ?thesis by (auto simp add: thrown_by_def attribute_def)
  next
    case NotSent
    with dispatch_not_sent [of E cred m base t i d w fn] assms(2) R
    show ?thesis by (auto simp add: thrown_by_def attribute_def)
  qed
qed

text \<open>The theorem at a GET of a draft that receives no response.\<close>

theorem transport_failures_classified_witness:
  "permitted ''draft'' ''GET'' \<and>
   (\<exists>x. thrown_by (sendRequest (test_env (NoResponse silent)) test_citation ''$fetchDraft''
            (Some ''https://nebula.test/'') ''GET'' ''draft'' ''d1'' Undefined initial_world) = Some x
      \<and> cause_of x = None
      \<and> attribute x ''$exception'' = Some (Plain (String ''$serverDown'')))"
proof -
  have h: "permitted ''draft'' ''GET''"
    by (simp add: permitted_def allowed_methods_def)
  from transport_failures_classified [OF h refl refl, where E = "test_env (NoResponse silent)"
      and cred = test_citation and base = "''https://nebula.test/''" and i = "''d1''"
      and d = Undefined and fn = "''$fetchDraft''" and w = initial_world]
  show ?thesis using h by (auto simp add: test_env_simps)
qed

text \<open>
  The claim as first stated has the original error attached as the cause. Here \<open>axios\<close>
  rejects with an error that carries the request, and the exception that \<open>sendRequest\<close>
  throws has no cause at all.
\<close>

theorem transport_cause_dropped_counterexample:
  "thrown_by (axios (test_env (NoResponse silent))
      (request_options (test_env (NoResponse silent)) test_citation ''GET''
         ''https://nebula.test/draft/d1'' Undefined) initial_world)
     = Some (Rejection \<lparr>error_response = None, error_request = Some silent\<rparr>)
   \<and> Option.bind (thrown_by (sendRequest (test_env (NoResponse silent)) test_citation
        ''$fetchDraft'' (Some ''https://nebula.test/'') ''GET'' ''draft'' ''d1'' Undefined
        initial_world)) cause_of = None"
  by (simp add: sendRequest_def analyze_def dispatch_def axios_def test_env_simps Let_def
      try_catch_def await_def throw_def return_def thrown_by_def)

subsection \<open>The requests of an operation\<close>

lemma permitted_operation: "permitted (resource_kind op) (method_mapping op)"
  by (cases op) (simp_all add: permitted_iff)

lemma attempt_eq:
  "attempt send E c op i p w =
     (case generateCredentials E (client_notary c) w of
        (Inl x, w1) \<Rightarrow> (Inl x, w1)
      | (Inr cred, w1) \<Rightarrow>
          send E cred (operation_name op) (client_cloudURL c) (method_mapping op)
            (resource_kind op) i (payload_argument op p) w1)"
  by (simp add: attempt_def await_def split: prod.splits sum.splits)

lemma attempt_skips_validation:
  "attempt sendRequest E c op i p = attempt dispatch E c op i p"
  by (simp add: attempt_def sendRequest_permitted permitted_operation)

lemma console_error_fields:
  "requests (console_error b l w) = requests w"
  "notarized (console_error b l w) = notarized w"
  "tags_drawn (console_error b l w) = tags_drawn w"
  "versions_drawn (console_error b l w) = versions_drawn w"
  by (simp_all add: console_error_def)

lemma invoke_world:
  "\<exists>ls. snd (invoke E c op i p w) =
     (snd (attempt sendRequest E c op i p w))
       \<lparr>console := console (snd (attempt sendRequest E c op i p w)) @ ls\<rparr>"
proof (cases "attempt sendRequest E c op i p w")
  case (Pair r w')
  show ?thesis
  proof (cases r)
    case (Inl cause)
    with Pair invoke_failure [of E c op i p w cause w']
    obtain x where "invoke E c op i p w =
        (Inl x, console_error (client_debug c) (show_exception E x) w')"
      by blast
    with Pair show ?thesis
      by (cases "client_debug c") (auto simp add: console_error_def intro: exI [of _ "[]"])
  next
    case (Inr v)
    with Pair invoke_success [of E c op i p w v w']
    show ?thesis by (auto intro: exI [of _ "[]"])
  qed
qed

lemma invoke_issued:
  "issued w (invoke E c op i p w) =
     (case generateCredentials E (client_notary c) w of
        (Inl x, w1) \<Rightarrow> []
      | (Inr cred, w1) \<Rightarrow>
          (case client_cloudURL c of
             None \<Rightarrow> []
           | Some base \<Rightarrow>
               [request_options E cred (method_mapping op)
                  (base @ resource_kind op @ ''/'' @ i) (payload_argument op p)]))"
proof -
  obtain ls where "snd (invoke E c op i p w) =
     (snd (attempt sendRequest E c op i p w))
       \<lparr>console := console (snd (attempt sendRequest E c op i p w)) @ ls\<rparr>"
    using invoke_world by blast
  then have "issued w (invoke E c op i p w) = issued w (attempt sendRequest E c op i p w)"
    by (simp add: issued_def)
  also have "\<dots> = (case generateCredentials E (client_notary c) w of
        (Inl x, w1) \<Rightarrow> []
      | (Inr cred, w1) \<Rightarrow>
          (case client_cloudURL c of
             None \<Rightarrow> []
           | Some base \<Rightarrow>
               [request_options E cred (method_mapping op)
                  (base @ resource_kind op @ ''/'' @ i) (payload_argument op p)]))"
  proof (cases "generateCredentials E (client_notary c) w")
    case (Pair r w1)
    have w1: "requests w1 = requests w"
      using generateCredentials_requests [of E "client_notary c" w] Pair by simp
    show ?thesis
    proof (cases r)
      case (Inl x)
      with Pair w1 show ?thesis by (simp add: attempt_eq issued_def)
    next
      case (Inr cred)
      have "issued w (attempt sendRequest E c op i p w) =
              issued w1 (sendRequest E cred (operation_name op) (client_cloudURL c)
                (method_mapping op) (resource_kind op) i (payload_argument op p) w1)"
        using Pair Inr w1 by (simp add: attempt_eq issued_def)
      with Pair Inr show ?thesis
        by (simp add: sendRequest_issued permitted_operation split: option.splits)
    qed
  qed
  finally show ?thesis .
qed

subsection \<open>The request that is sent\<close>

text \<open>
  Claim C6. A permitted request to a defined address issues exactly one HTTP call. Its
  URL is the repository address followed by the resource kind, a slash and the identifier;
  its \<open>Nebula-Credentials\<close> header is the formatted credentials between double quotes;
  and when a payload is present its string is the body, with the content type
  \<open>application/bali\<close> and a content length equal to the length of that string. Without
  a payload there is no body and neither of the two headers. A request that is not
  permitted, or whose repository address is undefined, issues no call.
\<close>

theorem request_is_built_as_specified:
  assumes "R = sendRequest E cred fn url m t i d w"
  shows "(permitted t m \<and> url = Some base \<longrightarrow>
           (\<exists>opts. issued w R = [opts]
              \<and> options_url opts = base @ t @ ''/'' @ i
              \<and> options_method opts = m
              \<and> map_of (options_headers opts) ''Nebula-Credentials''
                   = Some (String ([CHR 0x22] @ format E cred @ [CHR 0x22]))
              \<and> (if payload_present d
                  then options_data opts = Some (toString d)
                     \<and> map_of (options_headers opts) ''Content-Type''
                          = Some (String ''application/bali'')
                     \<and> map_of (options_headers opts) ''Content-Length''
                          = Some (Number (int (length (toString d))))
                  else options_data opts = None
                     \<and> map_of (options_headers opts) ''Content-Type'' = None
                     \<and> map_of (options_headers opts) ''Content-Length'' = None)))
       \<and> (\<not> permitted t m \<or> url = None \<longrightarrow> issued w R = [])"
proof (intro conjI impI)
  assume "permitted t m \<and> url = Some base"
  then have "issued w R = [request_options E cred m (base @ t @ ''/'' @ i) d]"
    using assms by (simp add: sendRequest_issued)
  then show "\<exists>opts. issued w R = [opts]
              \<and> options_url opts = base @ t @ ''/'' @ i
              \<and> options_method opts = m
              \<and> map_of (options_headers opts) ''Nebula-Credentials''
                   = Some (String ([CHR 0x22] @ format E cred @ [CHR 0x22]))
              \<and> (if payload_present d
                  then options_data opts = Some (toString d)
                     \<and> map_of (options_headers opts) ''Content-Type''
                          = Some (String ''application/bali'')
                     \<and> map_of (options_headers opts) ''Content-Length''
                          = Some (Number (int (length (toString d))))
                  else options_data opts = None
                     \<and> map_of (options_headers opts) ''Content-Type'' = None
                     \<and> map_of (options_headers opts) ''Content-Length'' = None)"
    by (simp add: request_options_fields request_options_present request_options_absent(2-4))
next
  assume "\<not> permitted t m \<or> url = None"
  then show "issued w R = []"
    using assms by (auto simp add: sendRequest_issued split: option.splits)
qed

text \<open>
  The theorem at a POST of a document with a nine-character payload, and at a PATCH,
  which is not permitted.
\<close>

theorem request_is_built_as_specified_witness:
  "permitted ''document'' ''POST'' \<and> payload_present (String ''[$foo: 1]'') \<and>
   (\<exists>opts. issued initial_world (sendRequest (test_env NotSent) test_citation ''$createDocument''
              (Some ''https://nebula.test/'') ''POST'' ''document'' ''d1'' (String ''[$foo: 1]'')
              initial_world) = [opts]
      \<and> options_url opts = ''https://nebula.test/document/d1''
      \<and> map_of (options_headers opts) ''Nebula-Credentials''
           = Some (String ([CHR 0x22] @ ''citation'' @ [CHR 0x22]))
      \<and> options_data opts = Some ''[$foo: 1]''
      \<and> map_of (options_headers opts) ''Content-Length'' = Some (Number 9))
   \<and> \<not> permitted ''document'' ''PATCH''
   \<and> issued initial_world (sendRequest (test_env NotSent) test_citation ''$createDocument''
         (Some ''https://nebula.test/'') ''PATCH'' ''document'' ''d1'' (String ''[$foo: 1]'')
         initial_world) = []"
proof -
  have h: "permitted ''document'' ''POST''"
    by (simp add: permitted_def allowed_methods_def)
  have k: "payload_present (String ''[$foo: 1]'')"
    by (simp add: payload_present_def)
  have n: "\<not> permitted ''document'' ''PATCH''"
    by (simp add: permitted_def allowed_methods_def)
  from request_is_built_as_specified [OF refl, where t = "''document''" and m = "''POST''"
      and url = "Some ''https://nebula.test/''" and base = "''https://nebula.test/''"
      and E = "test_env NotSent" and cred = test_citation and fn = "''$createDocument''"
      and i = "''d1''" and d = "String ''[$foo: 1]''" and w = initial_world]
  have first: "\<exists>opts. issued initial_world (sendRequest (test_env NotSent) test_citation
              ''$createDocument'' (Some ''https://nebula.test/'') ''POST'' ''document'' ''d1''
              (String ''[$foo: 1]'') initial_world) = [opts]
      \<and> options_url opts = ''https://nebula.test/document/d1''
      \<and> map_of (options_headers opts) ''Nebula-Credentials''
           = Some (String ([CHR 0x22] @ ''citation'' @ [CHR 0x22]))
      \<and> options_data opts = Some ''[$foo: 1]''
      \<and> map_of (options_headers opts) ''Content-Length'' = Some (Number 9)"
    using h k by (auto simp add: test_env_simps test_citation_def)
  from request_is_built_as_specified [OF refl, where t = "''document''" and m = "''PATCH''"
      and url = "Some ''https://nebula.test/''" and base = "''https://nebula.test/''"
      and E = "test_env NotSent" and cred = test_citation and fn = "''$createDocument''"
      and i = "''d1''" and d = "String ''[$foo: 1]''" and w = initial_world] n
  have second: "issued initial_world (sendRequest (test_env NotSent) test_citation
         ''$createDocument'' (Some ''https://nebula.test/'') ''PATCH'' ''document'' ''d1''
         (String ''[$foo: 1]'') initial_world) = []"
    by blast
  from h k n first second show ?thesis by blast
qed

text \<open>
  Claim C9. When the payload is falsy, or its string form is empty, \<open>sendRequest\<close> does
  exactly what it does without a payload, and a permitted request to a defined address is
  sent: exactly one HTTP call, with the method and the URL of the request, no body, no
  \<open>Content-Type\<close> and no \<open>Content-Length\<close>. Every operation then issues the same
  requests as with an undefined payload; when its credentials could be generated and the
  repository address is defined it issues exactly one request, with its mapped method, no
  body and neither header; and no request it issues has a body or either header.
\<close>

theorem empty_payload_sends_no_body:
  assumes "\<not> truthy p \<or> toString p = []"
  shows "sendRequest E cred fn url m t i p = sendRequest E cred fn url m t i Undefined
       \<and> (permitted t m \<and> url = Some base \<longrightarrow>
            (\<exists>opts. issued w (sendRequest E cred fn url m t i p w) = [opts]
               \<and> options_url opts = base @ t @ ''/'' @ i
               \<and> options_method opts = m
               \<and> options_data opts = None
               \<and> map_of (options_headers opts) ''Content-Type'' = None
               \<and> map_of (options_headers opts) ''Content-Length'' = None))
       \<and> issued w (invoke E c op i p w) = issued w (invoke E c op i Undefined w)
       \<and> (fst (generateCredentials E (client_notary c) w) = Inr cred'
            \<and> client_cloudURL c = Some base' \<longrightarrow>
            (\<exists>opts. issued w (invoke E c op i p w) = [opts]
               \<and> options_url opts = base' @ resource_kind op @ ''/'' @ i
               \<and> options_method opts = method_mapping op
               \<and> options_data opts = None
               \<and> map_of (options_headers opts) ''Content-Type'' = None
               \<and> map_of (options_headers opts) ''Content-Length'' = None))
       \<and> (\<forall>opts \<in> set (issued w (invoke E c op i p w)).
            options_data opts = None
          \<and> map_of (options_headers opts) ''Content-Type'' = None
          \<and> map_of (options_headers opts) ''Content-Length'' = None)"
proof -
  have absent: "\<not> payload_present p"
    using assms by (auto simp add: payload_present_def)
  have absent': "\<not> payload_present (payload_argument op p)"
    using absent by (simp add: payload_argument_def payload_present_def split: option.splits)
  have undefined: "\<not> payload_present (payload_argument op Undefined)"
    by (simp add: payload_argument_def payload_present_def split: option.splits)
  have options: "request_options E cred' m' u p = request_options E cred' m' u Undefined"
    for cred' m' u
    using request_options_absent(1) [OF absent] .
  have "dispatch E cred fn url m t i p = dispatch E cred fn url m t i Undefined"
    by (simp only: dispatch_def options)
  then have first: "sendRequest E cred fn url m t i p = sendRequest E cred fn url m t i Undefined"
    by (simp add: sendRequest_def split: option.splits)
  have second: "permitted t m \<and> url = Some base \<longrightarrow>
            (\<exists>opts. issued w (sendRequest E cred fn url m t i p w) = [opts]
               \<and> options_url opts = base @ t @ ''/'' @ i
               \<and> options_method opts = m
               \<and> options_data opts = None
               \<and> map_of (options_headers opts) ''Content-Type'' = None
               \<and> map_of (options_headers opts) ''Content-Length'' = None)"
    using request_options_absent(2-4) [OF absent]
    by (simp add: sendRequest_issued request_options_fields)
  have third: "issued w (invoke E c op i p w) = issued w (invoke E c op i Undefined w)"
    using request_options_absent(1) [OF absent'] request_options_absent(1) [OF undefined]
    by (simp add: invoke_issued split: prod.splits sum.splits option.splits)
  have fourth: "fst (generateCredentials E (client_notary c) w) = Inr cred'
            \<and> client_cloudURL c = Some base' \<longrightarrow>
            (\<exists>opts. issued w (invoke E c op i p w) = [opts]
               \<and> options_url opts = base' @ resource_kind op @ ''/'' @ i
               \<and> options_method opts = method_mapping op
               \<and> options_data opts = None
               \<and> map_of (options_headers opts) ''Content-Type'' = None
               \<and> map_of (options_headers opts) ''Content-Length'' = None)"
    using request_options_absent(2-4) [OF absent']
    by (auto simp add: invoke_issued request_options_fields
        split: prod.splits sum.splits option.splits)
  have fifth: "\<forall>opts \<in> set (issued w (invoke E c op i p w)).
            options_data opts = None
          \<and> map_of (options_headers opts) ''Content-Type'' = None
          \<and> map_of (options_headers opts) ''Content-Length'' = None"
    using request_options_absent(2-4) [OF absent']
    by (auto simp add: invoke_issued split: prod.splits sum.splits option.splits)
  from first second third fourth fifth show ?thesis by blast
qed

text \<open>
  The theorem at \<open>queueMessage\<close> with the empty string as the message: one PUT to the
  queue, without a body.
\<close>

theorem empty_payload_sends_no_body_witness:
  "\<not> truthy (String [])
   \<and> permitted ''queue'' ''PUT''
   \<and> (\<exists>opts. issued initial_world (sendRequest (test_env (responded 200 Undefined))
          test_citation ''$queueMessage'' (Some ''https://nebula.test/'') ''PUT'' ''queue''
          ''q1'' (String []) initial_world) = [opts]
        \<and> options_url opts = ''https://nebula.test/queue/q1''
        \<and> options_method opts = ''PUT''
        \<and> options_data opts = None
        \<and> map_of (options_headers opts) ''Content-Type'' = None
        \<and> map_of (options_headers opts) ''Content-Length'' = None)
   \<and> fst (generateCredentials (test_env (responded 200 Undefined))
         (client_notary (test_client None)) initial_world)
       = Inr (credentials_document (test_env (responded 200 Undefined)) test_citation
           initial_world)
   \<and> client_cloudURL (test_client None) = Some ''https://nebula.test/''
   \<and> (\<exists>opts. issued initial_world (invoke (test_env (responded 200 Undefined))
          (test_client None) QueueMessage ''q1'' (String []) initial_world) = [opts]
        \<and> options_url opts = ''https://nebula.test/queue/q1''
        \<and> options_method opts = ''PUT''
        \<and> options_data opts = None
        \<and> map_of (options_headers opts) ''Content-Type'' = None
        \<and> map_of (options_headers opts) ''Content-Length'' = None)
   \<and> issued initial_world (invoke (test_env (responded 200 Undefined)) (test_client None)
        QueueMessage ''q1'' (String []) initial_world)
      = issued initial_world (invoke (test_env (responded 200 Undefined)) (test_client None)
          QueueMessage ''q1'' Undefined initial_world)"
proof -
  let ?E = "test_env (responded 200 Undefined)"
  have h: "\<not> truthy (String []) \<or> toString (String []) = []"
    by simp
  have p: "permitted ''queue'' ''PUT''"
    by (simp add: permitted_def allowed_methods_def)
  have g: "fst (generateCredentials ?E (client_notary (test_client None)) initial_world)
      = Inr (credentials_document ?E test_citation initial_world)"
    by (simp add: generateCredentials_eq test_client_simps test_notary_def)
  have u: "client_cloudURL (test_client None) = Some ''https://nebula.test/''"
    by (simp add: test_client_simps)
  note th = empty_payload_sends_no_body [OF h, where E = ?E and cred = test_citation
      and fn = "''$queueMessage''" and url = "Some ''https://nebula.test/''"
      and m = "''PUT''" and t = "''queue''" and i = "''q1''" and base = "''https://nebula.test/''"
      and w = initial_world and c = "test_client None" and op = QueueMessage
      and cred' = "credentials_document ?E test_citation initial_world"
      and base' = "''https://nebula.test/''"]
  from th [THEN conjunct2, THEN conjunct1] p
  have first: "\<exists>opts. issued initial_world (sendRequest ?E
          test_citation ''$queueMessage'' (Some ''https://nebula.test/'') ''PUT'' ''queue''
          ''q1'' (String []) initial_world) = [opts]
        \<and> options_url opts = ''https://nebula.test/queue/q1''
        \<and> options_method opts = ''PUT''
        \<and> options_data opts = None
        \<and> map_of (options_headers opts) ''Content-Type'' = None
        \<and> map_of (options_headers opts) ''Content-Length'' = None"
    by simp
  from th [THEN conjunct2, THEN conjunct2, THEN conjunct2, THEN conjunct1] g u
  have second: "\<exists>opts. issued initial_world (invoke ?E
          (test_client None) QueueMessage ''q1'' (String []) initial_world) = [opts]
        \<and> options_url opts = ''https://nebula.test/queue/q1''
        \<and> options_method opts = ''PUT''
        \<and> options_data opts = None
        \<and> map_of (options_headers opts) ''Content-Type'' = None
        \<and> map_of (options_headers opts) ''Content-Length'' = None"
    by simp
  from th have third: "issued initial_world (invoke ?E (test_client None)
        QueueMessage ''q1'' (String []) initial_world)
      = issued initial_world (invoke ?E (test_client None)
          QueueMessage ''q1'' Undefined initial_world)"
    by blast
  from p g u first second third show ?thesis by simp
qed

subsection \<open>A 404 response that has a body\<close>

text \<open>
  A status passes \<open>validateStatus\<close> exactly when it is below 400 or equal to 404, and a
  permitted request answered with status 404 throws nothing: HEAD and DELETE resolve with
  \<open>false\<close>, and every other method resolves with the body of the response when it has a
  truthy one and with \<open>undefined\<close> otherwise.
\<close>

lemma status_policy:
  "validateStatus status \<longleftrightarrow> status < 400 \<or> status = 404"
  "\<not> validateStatus status \<longleftrightarrow> 400 \<le> status \<and> status \<noteq> 404"
  by (auto simp add: validateStatus_def)

lemma not_found_is_no_failure:
  assumes "permitted t m"
    and "transport E (request_options E cred m (base @ t @ ''/'' @ i) d) w = Responded q r"
    and "response_status r = 404"
  shows "fst (sendRequest E cred fn (Some base) m t i d w) =
           Inr (if m = ''HEAD'' \<or> m = ''DELETE'' then Boolean False
                else if truthy (response_data r) then response_data r else Undefined)"
proof -
  have "validateStatus (response_status r)"
    using assms(3) by (simp add: validateStatus_def)
  from dispatch_resolved [OF assms(2) this, of fn] assms(1,3) show ?thesis
    by (simp add: sendRequest_permitted)
qed

text \<open>
  Claim C2 at a GET that is answered with status 404 and the body \<open>Not Found\<close>: the
  status passes \<open>validateStatus\<close>, the \<open>default\<close> branch of the switch over the method
  does not look at the status, and both \<open>sendRequest\<close> and \<open>fetchDocument\<close> return the
  body of the 404 response as if it were the document.
\<close>

theorem not_found_body_is_returned:
  "returned_by (sendRequest (test_env (responded 404 (String ''Not Found''))) test_citation
      ''$fetchDocument'' (Some ''https://nebula.test/'') ''GET'' ''document'' ''d1'' Undefined
      initial_world) = Some (String ''Not Found'')
   \<and> returned_by (fetchDocument (test_env (responded 404 (String ''Not Found'')))
        (test_client None) ''d1'' initial_world) = Some (String ''Not Found'')"
proof -
  have p: "permitted ''document'' ''GET''"
    by (simp add: permitted_def allowed_methods_def)
  have v: "validateStatus 404"
    by (simp add: validateStatus_def)
  have s: "sendRequest (test_env (responded 404 (String ''Not Found''))) cred
      ''$fetchDocument'' (Some ''https://nebula.test/'') ''GET'' ''document'' ''d1'' Undefined w
      = (Inr (String ''Not Found''),
         w\<lparr>requests := requests w @ [request_options (test_env (responded 404
           (String ''Not Found''))) cred ''GET'' (''https://nebula.test/'' @ ''document'' @ ''/''
           @ ''d1'') Undefined]\<rparr>)" for cred w
    using dispatch_resolved [where E = "test_env (responded 404 (String ''Not Found''))"
        and m = "''GET''" and t = "''document''" and base = "''https://nebula.test/''"
        and i = "''d1''" and d = Undefined and w = w and cred = cred
        and fn = "''$fetchDocument''"
        and q = "\<lparr>request_status = Undefined, request_statusText = Undefined\<rparr>"
        and r = "\<lparr>response_status = 404, response_statusText = ''status'',
                  response_data = String ''Not Found''\<rparr>"]
    by (simp add: sendRequest_permitted [OF p] test_env_simps responded_def v)
  have "attempt sendRequest (test_env (responded 404 (String ''Not Found''))) (test_client None)
          FetchDocument ''d1'' Undefined initial_world
        = (Inr (String ''Not Found''),
           snd (attempt sendRequest (test_env (responded 404 (String ''Not Found'')))
             (test_client None) FetchDocument ''d1'' Undefined initial_world))"
    by (simp add: attempt_eq generateCredentials_eq test_client_def repository_def
        test_notary_def payload_argument_def s)
  from invoke_success [OF this] s [of test_citation initial_world]
  show ?thesis by (simp add: returned_by_def)
qed

subsection \<open>The boundary of the repository object\<close>

lemma test_sendRequest_resolved:
  assumes "permitted t m" and "validateStatus status"
  shows "sendRequest (test_env (responded status data)) cred fn (Some base) m t i d w =
     (Inr (if m = ''HEAD'' \<or> m = ''DELETE'' then Boolean (status \<noteq> 404)
           else if truthy data then data else Undefined),
      w\<lparr>requests := requests w @
          [request_options (test_env (responded status data)) cred m (base @ t @ ''/'' @ i) d]\<rparr>)"
  using dispatch_resolved [where E = "test_env (responded status data)"
      and q = "\<lparr>request_status = Undefined, request_statusText = Undefined\<rparr>"
      and r = "\<lparr>response_status = status, response_statusText = ''status'',
                response_data = data\<rparr>"
      and cred = cred and fn = fn and base = base and m = m and t = t and i = i and d = d
      and w = w] assms
  by (simp add: sendRequest_permitted test_env_simps responded_def)

lemma analyze_own:
  assumes "analyze fn url m t = Some x"
  shows "own_exception x"
proof (cases t rule: kind_cases)
  case certificate
  with assms show ?thesis
    by (auto simp add: analyze_def own_exception_def attribute_def split: if_splits)
next
  case draft
  with assms show ?thesis
    by (auto simp add: analyze_def own_exception_def attribute_def split: if_splits)
next
  case document
  with assms show ?thesis
    by (auto simp add: analyze_def own_exception_def attribute_def split: if_splits)
next
  case type
  with assms show ?thesis
    by (auto simp add: analyze_def own_exception_def attribute_def split: if_splits)
next
  case queue
  with assms show ?thesis
    by (auto simp add: analyze_def own_exception_def attribute_def split: if_splits)
next
  case unknown
  with assms show ?thesis
    unfolding known_kind_iff
    by (auto simp add: analyze_def own_exception_def attribute_def)
qed

lemma dispatch_throws_own:
  assumes "dispatch E cred fn (Some base) m t i d w = (Inl x, w')"
  shows "own_exception x"
  using assms
  by (auto simp add: dispatch_def Let_def try_catch_def await_def axios_def return_def
      throw_def own_exception_def attribute_def
      split: exchange.splits if_splits option.splits)

lemma sendRequest_throws_own:
  assumes "sendRequest E cred fn (Some base) m t i d w = (Inl x, w')"
  shows "own_exception x"
proof (cases "analyze fn (Some base) m t")
  case None
  with assms dispatch_throws_own show ?thesis
    by (simp add: sendRequest_def)
next
  case (Some e)
  with assms analyze_own [OF Some] show ?thesis
    by (simp add: sendRequest_def throw_def)
qed


lemma test_sendRequest_rejected:
  assumes "permitted t m" and "\<not> validateStatus status"
  shows "\<exists>as. sendRequest (test_env (responded status data)) cred fn (Some base) m t i d w =
     (Inl (Exception as None),
      w\<lparr>requests := requests w @
          [request_options (test_env (responded status data)) cred m (base @ t @ ''/'' @ i) d]\<rparr>)
     \<and> map_of as ''$exception'' = Some (Plain (String ''$invalidRequest''))"
  using dispatch_rejected [where E = "test_env (responded status data)"
      and q = "\<lparr>request_status = Undefined, request_statusText = Undefined\<rparr>"
      and r = "\<lparr>response_status = status, response_statusText = ''status'',
                response_data = data\<rparr>"
      and cred = cred and fn = fn and base = base and m = m and t = t and i = i and d = d
      and w = w] assms
  by (auto simp add: sendRequest_permitted test_env_simps responded_def)

text \<open>
  Claim C1, as the code has it. The \<open>try\<close> block of an operation generates credentials
  and sends one request. When any of it throws, the operation throws exactly one
  exception, after writing it to the console if the debug flag is set. That exception is
  what \<open>bali.exception\<close> gives for the attributes of the \<open>catch\<close> block and the value
  caught. A caught exception of this module, which is what every failure of
  \<open>sendRequest\<close> at a defined address is (\<open>$invalidParameter\<close>, \<open>$invalidRequest\<close>,
  \<open>$serverDown\<close>, \<open>$malformedRequest\<close>), is thrown on unchanged. Any other caught value
  (a failure of the notary, the \<open>TypeError\<close> of an undefined address) becomes the cause
  of a new exception of kind \<open>$unexpected\<close> that carries the name of the operation, the
  account, the repository address, the identifier under the key of its resource kind and,
  for an operation that takes a payload, the payload under its key (each replaced by
  \<open>bali.NONE\<close> when it is falsy). When nothing throws, the operations that check or
  fetch (and \<open>dequeueMessage\<close>) return what \<open>sendRequest\<close> resolved with, unchanged;
  the operations that create, save, delete or queue return \<open>undefined\<close> whatever
  \<open>sendRequest\<close> resolved with.
\<close>

theorem failures_rethrown_or_wrapped:
  "(attempt sendRequest E c op i p w = (Inl cause, w') \<longrightarrow>
      (\<exists>x. invoke E c op i p w =
              (Inl x, console_error (client_debug c) (show_exception E x) w')
         \<and> (if own_exception cause then x = cause
             else cause_of x = Some cause
                \<and> attribute x ''$exception'' = Some (Plain (String ''$unexpected''))
                \<and> attribute x ''$function'' = Some (Plain (String (operation_name op)))
                \<and> attribute x ''$account'' = Some (or_NONE (client_account c))
                \<and> attribute x ''$url'' = Some (url_or_NONE (client_cloudURL c))
                \<and> attribute x (identifier_key op) = Some (text_or_NONE i)
                \<and> (\<forall>k. payload_key op = Some k \<longrightarrow> attribute x k = Some (or_NONE p)))))
   \<and> (generateCredentials E (client_notary c) w = (Inr cred, w1)
        \<and> client_cloudURL c = Some base
        \<and> sendRequest E cred (operation_name op) (Some base) (method_mapping op)
             (resource_kind op) i (payload_argument op p) w1 = (Inl x', w') \<longrightarrow>
        own_exception x'
        \<and> invoke E c op i p w =
             (Inl x', console_error (client_debug c) (show_exception E x') w'))
   \<and> (attempt sendRequest E c op i p w = (Inr v, w') \<longrightarrow>
        invoke E c op i p w = (Inr (if returns_outcome op then v else Undefined), w'))"
proof (intro conjI impI)
  assume "attempt sendRequest E c op i p w = (Inl cause, w')"
  from invoke_failure [OF this] obtain x where
    x: "invoke E c op i p w = (Inl x, console_error (client_debug c) (show_exception E x) w')"
    and rest: "if own_exception cause then x = cause
       else \<exists>as. x = Exception as (Some cause)
         \<and> map_of as ''$exception'' = Some (Plain (String ''$unexpected''))
         \<and> map_of as ''$function'' = Some (Plain (String (operation_name op)))
         \<and> map_of as ''$account'' = Some (or_NONE (client_account c))
         \<and> map_of as ''$url'' = Some (url_or_NONE (client_cloudURL c))
         \<and> map_of as (identifier_key op) = Some (text_or_NONE i)
         \<and> (\<forall>k. payload_key op = Some k \<longrightarrow> map_of as k = Some (or_NONE p))"
    by blast
  from rest have "if own_exception cause then x = cause
             else cause_of x = Some cause
                \<and> attribute x ''$exception'' = Some (Plain (String ''$unexpected''))
                \<and> attribute x ''$function'' = Some (Plain (String (operation_name op)))
                \<and> attribute x ''$account'' = Some (or_NONE (client_account c))
                \<and> attribute x ''$url'' = Some (url_or_NONE (client_cloudURL c))
                \<and> attribute x (identifier_key op) = Some (text_or_NONE i)
                \<and> (\<forall>k. payload_key op = Some k \<longrightarrow> attribute x k = Some (or_NONE p))"
    by (cases "own_exception cause") (auto simp add: attribute_def)
  with x show "\<exists>x. invoke E c op i p w =
              (Inl x, console_error (client_debug c) (show_exception E x) w')
         \<and> (if own_exception cause then x = cause
             else cause_of x = Some cause
                \<and> attribute x ''$exception'' = Some (Plain (String ''$unexpected''))
                \<and> attribute x ''$function'' = Some (Plain (String (operation_name op)))
                \<and> attribute x ''$account'' = Some (or_NONE (client_account c))
                \<and> attribute x ''$url'' = Some (url_or_NONE (client_cloudURL c))
                \<and> attribute x (identifier_key op) = Some (text_or_NONE i)
                \<and> (\<forall>k. payload_key op = Some k \<longrightarrow> attribute x k = Some (or_NONE p)))"
    by blast
next
  assume a: "generateCredentials E (client_notary c) w = (Inr cred, w1)
        \<and> client_cloudURL c = Some base
        \<and> sendRequest E cred (operation_name op) (Some base) (method_mapping op)
             (resource_kind op) i (payload_argument op p) w1 = (Inl x', w')"
  then show own: "own_exception x'"
    using sendRequest_throws_own by blast
  from a have "attempt sendRequest E c op i p w = (Inl x', w')"
    by (simp add: attempt_eq)
  from invoke_failure [OF this] own
  show "invoke E c op i p w =
          (Inl x', console_error (client_debug c) (show_exception E x') w')"
    by auto
next
  assume "attempt sendRequest E c op i p w = (Inr v, w')"
  then show "invoke E c op i p w = (Inr (if returns_outcome op then v else Undefined), w')"
    by (rule invoke_success)
qed

text \<open>
  The theorem at \<open>saveDraft\<close> with a notary that cannot give its citation (wrapped), at
  \<open>fetchDraft\<close> with a server that answers 500 (thrown on), and at \<open>fetchDraft\<close> with
  a server that answers 200.
\<close>

theorem failures_rethrown_or_wrapped_witness:
  "attempt sendRequest (test_env NotSent)
     (repository offline_notary (Some ''https://nebula.test/'') None) SaveDraft
     ''d1'' (Object ''[$foo: 1]'') initial_world = (Inl (Error ''offline''), initial_world)
   \<and> \<not> own_exception (Error ''offline'')
   \<and> (\<exists>x. invoke (test_env NotSent)
             (repository offline_notary (Some ''https://nebula.test/'') None) SaveDraft
             ''d1'' (Object ''[$foo: 1]'') initial_world = (Inl x, initial_world)
        \<and> cause_of x = Some (Error ''offline'')
        \<and> attribute x ''$exception'' = Some (Plain (String ''$unexpected''))
        \<and> attribute x ''$function'' = Some (Plain (String ''$saveDraft''))
        \<and> attribute x ''$account''
            = Some (Plain (Object ''#WTFL0GLK7V5SJBZKCX9NH0KQWH0JYBL9''))
        \<and> attribute x ''$url'' = Some (Reference ''https://nebula.test/'')
        \<and> attribute x ''$draftId'' = Some (Text (String ''d1''))
        \<and> attribute x ''$draft'' = Some (Plain (Object ''[$foo: 1]'')))
   \<and> kind_thrown (sendRequest (test_env (responded 500 Undefined))
        (credentials_document (test_env (responded 500 Undefined)) test_citation initial_world)
        ''$fetchDraft'' (Some ''https://nebula.test/'') ''GET'' ''draft'' ''d1'' Undefined
        (snd (generateCredentials (test_env (responded 500 Undefined)) test_notary initial_world)))
       = Some (Plain (String ''$invalidRequest''))
   \<and> kind_thrown (invoke (test_env (responded 500 Undefined)) (test_client None) FetchDraft
        ''d1'' Undefined initial_world) = Some (Plain (String ''$invalidRequest''))
   \<and> returned_by (attempt sendRequest (test_env (responded 200 (String ''[$x: 1]'')))
        (test_client None) FetchDraft ''d1'' Undefined initial_world) = Some (String ''[$x: 1]'')
   \<and> returned_by (invoke (test_env (responded 200 (String ''[$x: 1]'')))
        (test_client None) FetchDraft ''d1'' Undefined initial_world) = Some (String ''[$x: 1]'')"
proof -
  let ?off = "repository offline_notary (Some ''https://nebula.test/'') None"
  let ?E500 = "test_env (responded 500 Undefined)"
  let ?E200 = "test_env (responded 200 (String ''[$x: 1]''))"
  have a: "attempt sendRequest (test_env NotSent) ?off
      SaveDraft ''d1'' (Object ''[$foo: 1]'') initial_world
      = (Inl (Error ''offline''), initial_world)"
    by (simp add: attempt_eq generateCredentials_eq repository_def offline_notary_def)
  have o: "\<not> own_exception (Error ''offline'')"
    by (simp add: own_exception_def attribute_def)
  have p: "permitted ''draft'' ''GET''"
    by (simp add: permitted_def allowed_methods_def)
  from failures_rethrown_or_wrapped [where E = "test_env NotSent"
      and c = ?off and op = SaveDraft and i = "''d1''"
      and p = "Object ''[$foo: 1]''" and w = initial_world and cause = "Error ''offline''"
      and w' = initial_world] a o
  have first: "\<exists>x. invoke (test_env NotSent) ?off SaveDraft
             ''d1'' (Object ''[$foo: 1]'') initial_world = (Inl x, initial_world)
        \<and> cause_of x = Some (Error ''offline'')
        \<and> attribute x ''$exception'' = Some (Plain (String ''$unexpected''))
        \<and> attribute x ''$function'' = Some (Plain (String ''$saveDraft''))
        \<and> attribute x ''$account''
            = Some (Plain (Object ''#WTFL0GLK7V5SJBZKCX9NH0KQWH0JYBL9''))
        \<and> attribute x ''$url'' = Some (Reference ''https://nebula.test/'')
        \<and> attribute x ''$draftId'' = Some (Text (String ''d1''))
        \<and> attribute x ''$draft'' = Some (Plain (Object ''[$foo: 1]''))"
    by (simp add: repository_def offline_notary_def console_error_def or_NONE_def
        url_or_NONE_def text_or_NONE_def identifier_key_def)
  define cred where "cred = credentials_document ?E500 test_citation initial_world"
  define w1 where "w1 = snd (generateCredentials ?E500 test_notary initial_world)"
  have g: "generateCredentials ?E500 (client_notary (test_client None)) initial_world
      = (Inr cred, w1)"
    by (simp add: generateCredentials_eq test_client_simps test_notary_def cred_def w1_def)
  have v: "\<not> validateStatus 500"
    by (simp add: validateStatus_def)
  from test_sendRequest_rejected [OF p v, where data = Undefined and cred = cred
      and fn = "''$fetchDraft''" and base = "''https://nebula.test/''" and i = "''d1''"
      and d = Undefined and w = w1]
  obtain as W where s: "sendRequest ?E500 cred ''$fetchDraft'' (Some ''https://nebula.test/'')
      ''GET'' ''draft'' ''d1'' Undefined w1 = (Inl (Exception as None), W)"
    and k: "map_of as ''$exception'' = Some (Plain (String ''$invalidRequest''))"
    by blast
  from failures_rethrown_or_wrapped [where E = ?E500 and c = "test_client None"
      and op = FetchDraft and i = "''d1''" and p = Undefined and w = initial_world
      and cred = cred and ?w1.0 = w1 and base = "''https://nebula.test/''"
      and x' = "Exception as None" and w' = W] g s
  have "fst (invoke ?E500 (test_client None) FetchDraft ''d1'' Undefined initial_world)
      = Inl (Exception as None)"
    by (simp add: test_client_simps payload_argument_def)
  with k have second: "kind_thrown (invoke ?E500 (test_client None) FetchDraft
        ''d1'' Undefined initial_world) = Some (Plain (String ''$invalidRequest''))"
    by (simp add: kind_thrown_def attribute_def)
  from s k have second': "kind_thrown (sendRequest ?E500 cred ''$fetchDraft''
      (Some ''https://nebula.test/'') ''GET'' ''draft'' ''d1'' Undefined w1)
      = Some (Plain (String ''$invalidRequest''))"
    by (simp add: kind_thrown_def attribute_def)
  have "fst (attempt sendRequest ?E200 (test_client None) FetchDraft ''d1'' Undefined
      initial_world) = Inr (String ''[$x: 1]'')"
    by (simp add: attempt_eq generateCredentials_eq test_client_simps test_notary_def
        test_sendRequest_resolved [OF p] validateStatus_def)
  then obtain W' where b: "attempt sendRequest ?E200 (test_client None) FetchDraft ''d1''
      Undefined initial_world = (Inr (String ''[$x: 1]''), W')"
    by (cases "attempt sendRequest ?E200 (test_client None) FetchDraft ''d1'' Undefined
        initial_world") auto
  from failures_rethrown_or_wrapped [where E = ?E200 and c = "test_client None"
      and op = FetchDraft and i = "''d1''" and p = Undefined and w = initial_world
      and v = "String ''[$x: 1]''" and w' = W'] b
  have third: "returned_by (invoke ?E200 (test_client None) FetchDraft ''d1'' Undefined
      initial_world) = Some (String ''[$x: 1]'')"
    by (simp add: returned_by_def)
  from b have fourth: "returned_by (attempt sendRequest ?E200 (test_client None) FetchDraft
      ''d1'' Undefined initial_world) = Some (String ''[$x: 1]'')"
    by (simp add: returned_by_def)
  from a o first second second' third fourth show ?thesis
    unfolding cred_def w1_def by blast
qed

text \<open>
  The claim as first stated has every operation return the interpreted outcome unchanged
  and rethrow every failure as \<open>$unexpected\<close> with the original error as its cause. For
  a DELETE answered with status 200 \<open>sendRequest\<close> resolves with \<open>true\<close>, and
  \<open>deleteDraft\<close> returns \<open>undefined\<close>; for a GET answered with status 500
  \<open>fetchDraft\<close> throws the \<open>$invalidRequest\<close> exception of \<open>sendRequest\<close> itself,
  which has no cause.
\<close>

theorem outcome_discarded_and_failure_rethrown_counterexample:
  "returned_by (sendRequest (test_env (responded 200 Undefined)) test_citation ''$deleteDraft''
      (Some ''https://nebula.test/'') ''DELETE'' ''draft'' ''d1'' Undefined initial_world)
     = Some (Boolean True)
   \<and> returned_by (deleteDraft (test_env (responded 200 Undefined)) (test_client None) ''d1''
        initial_world) = Some Undefined
   \<and> kind_thrown (fetchDraft (test_env (responded 500 Undefined)) (test_client None) ''d1''
        initial_world) = Some (Plain (String ''$invalidRequest''))
   \<and> Option.bind (thrown_by (fetchDraft (test_env (responded 500 Undefined))
        (test_client None) ''d1'' initial_world)) cause_of = None"
proof -
  let ?E500 = "test_env (responded 500 Undefined)"
  have p: "permitted ''draft'' ''DELETE''"
    by (simp add: permitted_def allowed_methods_def)
  have p': "permitted ''draft'' ''GET''"
    by (simp add: permitted_def allowed_methods_def)
  have "fst (attempt sendRequest (test_env (responded 200 Undefined)) (test_client None)
          DeleteDraft ''d1'' Undefined initial_world) = Inr (Boolean True)"
    by (simp add: attempt_eq generateCredentials_eq test_client_simps test_notary_def
        test_sendRequest_resolved [OF p] validateStatus_def)
  then obtain W where "attempt sendRequest (test_env (responded 200 Undefined))
      (test_client None) DeleteDraft ''d1'' Undefined initial_world = (Inr (Boolean True), W)"
    by (cases "attempt sendRequest (test_env (responded 200 Undefined))
      (test_client None) DeleteDraft ''d1'' Undefined initial_world") auto
  from invoke_success [OF this]
  have first: "returned_by (deleteDraft (test_env (responded 200 Undefined)) (test_client None)
      ''d1'' initial_world) = Some Undefined"
    by (simp add: returned_by_def)
  have v: "\<not> validateStatus 500"
    by (simp add: validateStatus_def)
  define cred where "cred = credentials_document ?E500 test_citation initial_world"
  define w1 where "w1 = snd (generateCredentials ?E500 test_notary initial_world)"
  from test_sendRequest_rejected [OF p' v, where data = Undefined and cred = cred
      and fn = "''$fetchDraft''" and base = "''https://nebula.test/''" and i = "''d1''"
      and d = Undefined and w = w1]
  obtain as W' where s: "sendRequest ?E500 cred ''$fetchDraft'' (Some ''https://nebula.test/'')
      ''GET'' ''draft'' ''d1'' Undefined w1 = (Inl (Exception as None), W')"
    and k: "map_of as ''$exception'' = Some (Plain (String ''$invalidRequest''))"
    by blast
  have own: "own_exception (Exception as None)"
    using sendRequest_throws_own [OF s] .
  have "attempt sendRequest ?E500 (test_client None) FetchDraft ''d1'' Undefined initial_world
      = (Inl (Exception as None), W')"
    using s
    by (simp add: attempt_eq generateCredentials_eq test_client_simps test_notary_def
        payload_argument_def cred_def w1_def)
  from invoke_failure [OF this] own
  have "fst (fetchDraft ?E500 (test_client None) ''d1'' initial_world) = Inl (Exception as None)"
    by auto
  with k have second: "kind_thrown (fetchDraft ?E500 (test_client None) ''d1'' initial_world)
      = Some (Plain (String ''$invalidRequest''))
    \<and> Option.bind (thrown_by (fetchDraft ?E500 (test_client None) ''d1'' initial_world))
        cause_of = None"
    by (simp add: kind_thrown_def thrown_by_def attribute_def)
  from first second show ?thesis
    by (simp add: test_sendRequest_resolved [OF p] validateStatus_def returned_by_def)
qed

subsection \<open>Methods, validation and the debug flag\<close>

lemma invoke_debug:
  "invoke E (c\<lparr>client_debug := b\<rparr>) op i p w =
     (case invoke E (c\<lparr>client_debug := False\<rparr>) op i p w of
        (Inl x, w') \<Rightarrow> (Inl x, console_error b (show_exception E x) w')
      | (Inr v, w') \<Rightarrow> (Inr v, w'))"
  by (cases op)
     (simp_all add: operation_defs try_catch_def log_and_throw_def throw_def
        console_error_def Let_def split: prod.splits sum.splits)


lemma attempt_fields:
  "console (snd (attempt sendRequest E c op i p w)) = console w"
  "notarized (snd (attempt sendRequest E c op i p w))
     = notarized (snd (generateCredentials E (client_notary c) w))"
  "tags_drawn (snd (attempt sendRequest E c op i p w))
     = tags_drawn (snd (generateCredentials E (client_notary c) w))"
  "versions_drawn (snd (attempt sendRequest E c op i p w))
     = versions_drawn (snd (generateCredentials E (client_notary c) w))"
proof -
  obtain r w1 where g: "generateCredentials E (client_notary c) w = (r, w1)"
    by (cases "generateCredentials E (client_notary c) w")
  have k: "console w1 = console w"
    using generateCredentials_console [of E "client_notary c" w] g by simp
  have s: "snd (attempt sendRequest E c op i p w) = w1 \<or>
           (\<exists>rs. snd (attempt sendRequest E c op i p w) = w1\<lparr>requests := rs\<rparr>)"
  proof (cases r)
    case (Inl x)
    with g show ?thesis by (simp add: attempt_eq)
  next
    case (Inr cred)
    with g have "snd (attempt sendRequest E c op i p w) =
        snd (sendRequest E cred (operation_name op) (client_cloudURL c) (method_mapping op)
          (resource_kind op) i (payload_argument op p) w1)"
      by (simp add: attempt_eq)
    then show ?thesis
      using sendRequest_world [of E cred "operation_name op" "client_cloudURL c"
          "method_mapping op" "resource_kind op" i "payload_argument op p" w1]
      by metis
  qed
  from s k show "console (snd (attempt sendRequest E c op i p w)) = console w"
    by auto
  from s g show "notarized (snd (attempt sendRequest E c op i p w))
     = notarized (snd (generateCredentials E (client_notary c) w))"
    by auto
  from s g show "tags_drawn (snd (attempt sendRequest E c op i p w))
     = tags_drawn (snd (generateCredentials E (client_notary c) w))"
    by auto
  from s g show "versions_drawn (snd (attempt sendRequest E c op i p w))
     = versions_drawn (snd (generateCredentials E (client_notary c) w))"
    by auto
qed

lemma invoke_fields:
  "notarized (snd (invoke E c op i p w))
     = notarized (snd (generateCredentials E (client_notary c) w))"
  "tags_drawn (snd (invoke E c op i p w))
     = tags_drawn (snd (generateCredentials E (client_notary c) w))"
  "versions_drawn (snd (invoke E c op i p w))
     = versions_drawn (snd (generateCredentials E (client_notary c) w))"
proof -
  obtain ls where "snd (invoke E c op i p w) =
     (snd (attempt sendRequest E c op i p w))
       \<lparr>console := console (snd (attempt sendRequest E c op i p w)) @ ls\<rparr>"
    using invoke_world by blast
  then show "notarized (snd (invoke E c op i p w))
     = notarized (snd (generateCredentials E (client_notary c) w))"
    and "tags_drawn (snd (invoke E c op i p w))
     = tags_drawn (snd (generateCredentials E (client_notary c) w))"
    and "versions_drawn (snd (invoke E c op i p w))
     = versions_drawn (snd (generateCredentials E (client_notary c) w))"
    by (simp_all add: attempt_fields)
qed

lemma invoke_quiet:
  assumes "\<not> client_debug c"
  shows "snd (invoke E c op i p w) = snd (attempt sendRequest E c op i p w)"
proof (cases "attempt sendRequest E c op i p w")
  case (Pair r w')
  show ?thesis
  proof (cases r)
    case (Inl cause)
    with Pair invoke_failure [of E c op i p w cause w'] assms
    show ?thesis by (auto simp add: console_error_def)
  next
    case (Inr v)
    with Pair invoke_success [of E c op i p w v w'] show ?thesis by simp
  qed
qed

text \<open>
  Claim C7. Every request that an operation issues has the method of the mapping (exists
  HEAD, fetch GET, create POST, \<open>saveDraft\<close> PUT, \<open>deleteDraft\<close> DELETE, \<open>queueMessage\<close>
  PUT, \<open>dequeueMessage\<close> GET) and addresses the resource kind of the operation; an
  operation issues at most one request, and exactly one when its credentials could be
  generated and the repository address is defined.
\<close>

theorem operations_use_mapped_methods:
  "(\<forall>opts \<in> set (issued w (invoke E c op i p w)).
       options_method opts = method_mapping op
     \<and> (\<exists>base. client_cloudURL c = Some base
           \<and> options_url opts = base @ resource_kind op @ ''/'' @ i))
   \<and> length (issued w (invoke E c op i p w)) \<le> 1
   \<and> (fst (generateCredentials E (client_notary c) w) = Inr cred
        \<and> client_cloudURL c = Some base \<longrightarrow>
          (\<exists>opts. issued w (invoke E c op i p w) = [opts]
             \<and> options_method opts = method_mapping op
             \<and> options_url opts = base @ resource_kind op @ ''/'' @ i))"
  by (auto simp add: invoke_issued request_options_fields
      split: prod.splits sum.splits option.splits)

text \<open>The theorem at \<open>deleteDraft\<close>.\<close>

theorem operations_use_mapped_methods_witness:
  "fst (generateCredentials (test_env NotSent) (client_notary (test_client None)) initial_world)
     = Inr (credentials_document (test_env NotSent) test_citation initial_world)
   \<and> client_cloudURL (test_client None) = Some ''https://nebula.test/''
   \<and> (\<exists>opts. issued initial_world
          (invoke (test_env NotSent) (test_client None) DeleteDraft ''d1'' Undefined initial_world)
          = [opts]
        \<and> options_method opts = ''DELETE''
        \<and> options_url opts = ''https://nebula.test/draft/d1'')"
proof -
  have g: "fst (generateCredentials (test_env NotSent) (client_notary (test_client None))
      initial_world) = Inr (credentials_document (test_env NotSent) test_citation initial_world)"
    by (simp add: generateCredentials_eq test_client_simps test_notary_def)
  have u: "client_cloudURL (test_client None) = Some ''https://nebula.test/''"
    by (simp add: test_client_simps)
  from operations_use_mapped_methods [where E = "test_env NotSent" and c = "test_client None"
      and op = DeleteDraft and i = "''d1''" and p = Undefined and w = initial_world
      and cred = "credentials_document (test_env NotSent) test_citation initial_world"
      and base = "''https://nebula.test/''"] g u
  show ?thesis by simp
qed

text \<open>
  Claim C8. Whatever the debug flag given to \<open>repository\<close> (true, false or left out), an
  operation returns the same value or throws the same exception, and it leaves the same
  history but for the console; the console gains exactly the text of the exception when
  one is thrown and the flag is true, and nothing otherwise.
\<close>

theorem debug_flag_changes_console_only:
  "fst (invoke E (repository n u debug) op i p w) = fst (invoke E (repository n u None) op i p w)
   \<and> (snd (invoke E (repository n u debug) op i p w))\<lparr>console := console w\<rparr>
       = snd (invoke E (repository n u None) op i p w)
   \<and> console (snd (invoke E (repository n u debug) op i p w))
       = console w @
         (case thrown_by (invoke E (repository n u debug) op i p w) of
            None \<Rightarrow> []
          | Some x \<Rightarrow> if debug = Some True then [show_exception E x] else [])"
proof -
  define c where "c = repository n u None"
  define b where "b = (case debug of None \<Rightarrow> False | Some b \<Rightarrow> b)"
  have c: "repository n u debug = c\<lparr>client_debug := b\<rparr>" "c\<lparr>client_debug := False\<rparr> = c"
    "\<not> client_debug c"
    by (simp_all add: c_def b_def repository_def)
  have b: "b \<longleftrightarrow> debug = Some True"
    by (cases debug) (simp_all add: b_def)
  obtain r w' where r: "invoke E c op i p w = (r, w')"
    by (cases "invoke E c op i p w")
  have "w' = snd (attempt sendRequest E c op i p w)"
    using invoke_quiet [OF c(3), where E = E and op = op and i = i and p = p and w = w] r by simp
  then have k: "console w' = console w"
    by (simp add: attempt_fields)
  then have k': "w'\<lparr>console := console w\<rparr> = w'"
    by simp
  have d: "invoke E (repository n u debug) op i p w =
      (case r of Inl x \<Rightarrow> (Inl x, console_error b (show_exception E x) w')
       | Inr v \<Rightarrow> (Inr v, w'))"
    using invoke_debug [where E = E and c = c and b = b and op = op and i = i and p = p and w = w] r
    by (simp add: c split: sum.splits)
  show ?thesis
    unfolding c_def [symmetric]
    using k k' by (cases r) (simp_all add: d r thrown_by_def console_error_def b)
qed

text \<open>The theorem at a \<open>saveDraft\<close> that fails, with and without the flag.\<close>

theorem debug_flag_changes_console_only_witness:
  "thrown_by (invoke (test_env NotSent) (repository offline_notary None (Some True))
      SaveDraft ''d1'' Undefined initial_world)
   = thrown_by (invoke (test_env NotSent) (repository offline_notary None None)
      SaveDraft ''d1'' Undefined initial_world)
   \<and> console (snd (invoke (test_env NotSent) (repository offline_notary None (Some True))
      SaveDraft ''d1'' Undefined initial_world)) = [''exception'']
   \<and> console (snd (invoke (test_env NotSent) (repository offline_notary None None)
      SaveDraft ''d1'' Undefined initial_world)) = []"
proof -
  have a: "attempt sendRequest (test_env NotSent) (repository offline_notary None debug)
      SaveDraft ''d1'' Undefined initial_world = (Inl (Error ''offline''), initial_world)"
    for debug
    by (simp add: attempt_eq generateCredentials_eq repository_def offline_notary_def)
  have t: "thrown_by (invoke (test_env NotSent) (repository offline_notary None debug)
      SaveDraft ''d1'' Undefined initial_world) \<noteq> None" for debug
    using invoke_failure [OF a [of debug]] by (auto simp add: thrown_by_def)
  from debug_flag_changes_console_only [where E = "test_env NotSent" and n = offline_notary
      and u = None and debug = "Some True" and op = SaveDraft and i = "''d1''"
      and p = Undefined and w = initial_world]
    debug_flag_changes_console_only [where E = "test_env NotSent" and n = offline_notary
      and u = None and debug = None and op = SaveDraft and i = "''d1''"
      and p = Undefined and w = initial_world]
    t [of "Some True"] t [of None]
  show ?thesis
    by (auto simp add: thrown_by_def test_env_simps initial_world_def split: sum.splits)
qed

text \<open>
  Claim C10. The kind and the method that an operation passes to \<open>sendRequest\<close> are in
  the table, so the switch of \<open>sendRequest\<close> throws nothing: the \<open>try\<close> block of every
  operation behaves as it would with the validation left out, and an operation throws
  exactly when credential generation or the dispatch does.
\<close>

theorem operations_pass_validation:
  "permitted (resource_kind op) (method_mapping op)
   \<and> analyze (operation_name op) (client_cloudURL c) (method_mapping op) (resource_kind op)
       = None
   \<and> attempt sendRequest E c op i p = attempt dispatch E c op i p
   \<and> (thrown_by (invoke E c op i p w) = None) =
       (thrown_by (attempt dispatch E c op i p w) = None)"
proof -
  have eq: "attempt sendRequest E c op i p = attempt dispatch E c op i p"
    by (rule attempt_skips_validation)
  obtain r w' where r: "attempt sendRequest E c op i p w = (r, w')"
    by (cases "attempt sendRequest E c op i p w")
  have "(thrown_by (invoke E c op i p w) = None) =
       (thrown_by (attempt sendRequest E c op i p w) = None)"
  proof (cases r)
    case (Inl cause)
    with r invoke_failure [of E c op i p w cause w'] show ?thesis
      by (auto simp add: thrown_by_def)
  next
    case (Inr v)
    with r invoke_success [of E c op i p w v w'] show ?thesis
      by (simp add: thrown_by_def)
  qed
  then show ?thesis
    by (simp add: eq permitted_operation analyze_permitted)
qed

text \<open>The theorem at a \<open>saveDraft\<close> that the server accepts.\<close>

theorem operations_pass_validation_witness:
  "permitted ''draft'' ''PUT''
   \<and> analyze ''$saveDraft'' (Some ''https://nebula.test/'') ''PUT'' ''draft'' = None
   \<and> thrown_by (attempt dispatch (test_env (responded 200 Undefined)) (test_client None)
        SaveDraft ''d1'' (Object ''[$foo: 1]'') initial_world) = None
   \<and> thrown_by (invoke (test_env (responded 200 Undefined)) (test_client None)
        SaveDraft ''d1'' (Object ''[$foo: 1]'') initial_world) = None"
proof -
  let ?E = "test_env (responded 200 Undefined)"
  have v: "validateStatus 200"
    by (simp add: validateStatus_def)
  have "fst (attempt dispatch ?E (test_client None) SaveDraft ''d1'' (Object ''[$foo: 1]'')
      initial_world) = Inr Undefined"
    using dispatch_resolved [where E = ?E
        and q = "\<lparr>request_status = Undefined, request_statusText = Undefined\<rparr>"
        and r = "\<lparr>response_status = 200, response_statusText = ''status'',
                  response_data = Undefined\<rparr>"
        and base = "''https://nebula.test/''" and m = "''PUT''" and t = "''draft''"
        and i = "''d1''" and d = "Object ''[$foo: 1]''" and fn = "''$saveDraft''"] v
    by (simp add: attempt_eq generateCredentials_eq test_client_simps test_notary_def
        payload_argument_def test_env_simps responded_def)
  then have a: "thrown_by (attempt dispatch ?E (test_client None) SaveDraft ''d1''
      (Object ''[$foo: 1]'') initial_world) = None"
    by (simp add: thrown_by_def)
  from operations_pass_validation [where E = ?E and c = "test_client None" and op = SaveDraft
      and i = "''d1''" and p = "Object ''[$foo: 1]''" and w = initial_world] a
  show ?thesis by (simp add: test_client_simps)
qed

subsection \<open>Fresh credentials\<close>

lemma credentials_document_tag:
  "parameters (credentials_document E citation w) ''$tag'' = Some (tags E (tags_drawn w))"
  "parameters (credentials_document E citation w) ''$version''
     = Some (versions E (versions_drawn w))"
  "parameters (credentials_document E citation w) ''$permissions''
     = Some (Plain (String ''$Private''))"
  "parameters (credentials_document E citation w) ''$previous'' = Some NONE"
  "body (credentials_document E citation w) = body citation"
  by (simp_all add: credentials_document_def)

lemma generateCredentials_fields:
  assumes "getCitation n w = Inr citation"
  shows "notarized (snd (generateCredentials E n w))
           = notarized w @ [credentials_document E citation w]"
    and "tags_drawn (snd (generateCredentials E n w)) = Suc (tags_drawn w)"
    and "versions_drawn (snd (generateCredentials E n w)) = Suc (versions_drawn w)"
  using assms by (simp_all add: generateCredentials_eq)

text \<open>
  Claim C5. Given the citation of the notary, \<open>generateCredentials\<close> draws one tag and
  one version from the framework and hands the notary exactly the document of the
  specification: the duplicated citation with \<open>$tag\<close>, \<open>$version\<close>, \<open>$permissions\<close>
  (private) and \<open>$previous\<close> (none) overwritten; its result is what the notary signs.
  Every operation does this once, so that the notary gets one new document per call, and
  the request the operation issues carries the credentials signed in that very call.
  When the framework never generates the same tag twice (its tags are unique), two
  consecutive generations, and the generations of two consecutive operations, hand the
  notary documents with different tags.
\<close>

theorem credentials_minted_afresh:
  "(getCitation n w = Inr citation \<longrightarrow>
      generateCredentials E n w =
        (notarizeDocument n (credentials_document E citation w)
           (w\<lparr>tags_drawn := Suc (tags_drawn w), versions_drawn := Suc (versions_drawn w)\<rparr>),
         w\<lparr>tags_drawn := Suc (tags_drawn w), versions_drawn := Suc (versions_drawn w),
           notarized := notarized w @ [credentials_document E citation w]\<rparr>))
   \<and> (getCitation (client_notary c) w = Inr citation \<longrightarrow>
        notarized (snd (invoke E c op i p w))
          = notarized w @ [credentials_document E citation w]
      \<and> tags_drawn (snd (invoke E c op i p w)) = Suc (tags_drawn w)
      \<and> versions_drawn (snd (invoke E c op i p w)) = Suc (versions_drawn w)
      \<and> (\<forall>opts \<in> set (issued w (invoke E c op i p w)).
            \<exists>credentials.
              notarizeDocument (client_notary c) (credentials_document E citation w)
                (w\<lparr>tags_drawn := Suc (tags_drawn w), versions_drawn := Suc (versions_drawn w)\<rparr>)
                = Inr credentials
            \<and> map_of (options_headers opts) ''Nebula-Credentials''
                = Some (String ([CHR 0x22] @ format E credentials @ [CHR 0x22]))))
   \<and> (inj (tags E) \<and> getCitation n w = Inr citation
        \<and> w1 = snd (generateCredentials E n w) \<and> getCitation n w1 = Inr citation' \<longrightarrow>
        notarized (snd (generateCredentials E n w1))
          = notarized w @ [credentials_document E citation w,
                           credentials_document E citation' w1]
      \<and> parameters (credentials_document E citation w) ''$tag''
          \<noteq> parameters (credentials_document E citation' w1) ''$tag'')
   \<and> (inj (tags E) \<and> getCitation (client_notary c) w = Inr citation
        \<and> w2 = snd (invoke E c op i p w) \<and> getCitation (client_notary c') w2 = Inr citation' \<longrightarrow>
        notarized (snd (invoke E c' op' i' p' w2))
          = notarized w @ [credentials_document E citation w,
                           credentials_document E citation' w2]
      \<and> parameters (credentials_document E citation w) ''$tag''
          \<noteq> parameters (credentials_document E citation' w2) ''$tag'')"
proof (intro conjI impI)
  assume "getCitation n w = Inr citation"
  then show "generateCredentials E n w =
        (notarizeDocument n (credentials_document E citation w)
           (w\<lparr>tags_drawn := Suc (tags_drawn w), versions_drawn := Suc (versions_drawn w)\<rparr>),
         w\<lparr>tags_drawn := Suc (tags_drawn w), versions_drawn := Suc (versions_drawn w),
           notarized := notarized w @ [credentials_document E citation w]\<rparr>)"
    by (simp add: generateCredentials_eq)
next
  assume g: "getCitation (client_notary c) w = Inr citation"
  show "notarized (snd (invoke E c op i p w))
          = notarized w @ [credentials_document E citation w]"
    by (simp add: invoke_fields generateCredentials_fields [OF g])
  show "tags_drawn (snd (invoke E c op i p w)) = Suc (tags_drawn w)"
    by (simp add: invoke_fields generateCredentials_fields [OF g])
  show "versions_drawn (snd (invoke E c op i p w)) = Suc (versions_drawn w)"
    by (simp add: invoke_fields generateCredentials_fields [OF g])
  show "\<forall>opts \<in> set (issued w (invoke E c op i p w)).
            \<exists>credentials.
              notarizeDocument (client_notary c) (credentials_document E citation w)
                (w\<lparr>tags_drawn := Suc (tags_drawn w), versions_drawn := Suc (versions_drawn w)\<rparr>)
                = Inr credentials
            \<and> map_of (options_headers opts) ''Nebula-Credentials''
                = Some (String ([CHR 0x22] @ format E credentials @ [CHR 0x22]))"
  proof (cases "notarizeDocument (client_notary c) (credentials_document E citation w)
      (w\<lparr>tags_drawn := Suc (tags_drawn w), versions_drawn := Suc (versions_drawn w)\<rparr>)")
    case (Inl x)
    with g show ?thesis
      by (simp add: invoke_issued generateCredentials_eq)
  next
    case (Inr credentials)
    with g show ?thesis
      by (auto simp add: invoke_issued generateCredentials_eq request_options_fields
          split: option.splits)
  qed
next
  assume a: "inj (tags E) \<and> getCitation n w = Inr citation
        \<and> w1 = snd (generateCredentials E n w) \<and> getCitation n w1 = Inr citation'"
  then have inj: "inj (tags E)" and g: "getCitation n w = Inr citation"
    and w1: "w1 = snd (generateCredentials E n w)" and g': "getCitation n w1 = Inr citation'"
    by blast+
  have t: "tags_drawn w1 = Suc (tags_drawn w)"
    and k: "notarized w1 = notarized w @ [credentials_document E citation w]"
    unfolding w1 using generateCredentials_fields [OF g] by blast+
  show "notarized (snd (generateCredentials E n w1))
          = notarized w @ [credentials_document E citation w,
                           credentials_document E citation' w1]"
    using generateCredentials_fields(1) [OF g', of E] k by simp
  have "tags E (tags_drawn w) \<noteq> tags E (tags_drawn w1)"
    unfolding t using inj by (auto dest: injD)
  then show "parameters (credentials_document E citation w) ''$tag''
          \<noteq> parameters (credentials_document E citation' w1) ''$tag''"
    by (simp add: credentials_document_tag)
next
  assume a: "inj (tags E) \<and> getCitation (client_notary c) w = Inr citation
        \<and> w2 = snd (invoke E c op i p w) \<and> getCitation (client_notary c') w2 = Inr citation'"
  then have inj: "inj (tags E)" and g: "getCitation (client_notary c) w = Inr citation"
    and w2: "w2 = snd (invoke E c op i p w)"
    and g': "getCitation (client_notary c') w2 = Inr citation'"
    by blast+
  have t: "tags_drawn w2 = Suc (tags_drawn w)"
    and k: "notarized w2 = notarized w @ [credentials_document E citation w]"
    unfolding w2 using generateCredentials_fields [OF g, of E]
    by (simp_all add: invoke_fields)
  show "notarized (snd (invoke E c' op' i' p' w2))
          = notarized w @ [credentials_document E citation w,
                           credentials_document E citation' w2]"
    using generateCredentials_fields(1) [OF g', of E] k by (simp add: invoke_fields)
  have "tags E (tags_drawn w) \<noteq> tags E (tags_drawn w2)"
    unfolding t using inj by (auto dest: injD)
  then show "parameters (credentials_document E citation w) ''$tag''
          \<noteq> parameters (credentials_document E citation' w2) ''$tag''"
    by (simp add: credentials_document_tag)
qed

text \<open>
  The theorem at a \<open>fetchType\<close> followed by a \<open>queueMessage\<close>, with a framework that
  numbers its tags: the two documents signed carry the tags 0 and 1.
\<close>

theorem credentials_minted_afresh_witness:
  "inj (tags (test_env NotSent))
   \<and> getCitation test_notary initial_world = Inr test_citation
   \<and> getCitation test_notary
       (snd (invoke (test_env NotSent) (test_client None) FetchType ''t1'' Undefined
          initial_world)) = Inr test_citation
   \<and> parameters (credentials_document (test_env NotSent) test_citation initial_world) ''$tag''
       = Some (Plain (Number 0))
   \<and> parameters (credentials_document (test_env NotSent) test_citation
        (snd (invoke (test_env NotSent) (test_client None) FetchType ''t1'' Undefined
          initial_world))) ''$tag'' = Some (Plain (Number 1))
   \<and> notarized (snd (invoke (test_env NotSent) (test_client None) QueueMessage ''q1''
        (Object ''[$foo: 1]'')
        (snd (invoke (test_env NotSent) (test_client None) FetchType ''t1'' Undefined
          initial_world))))
       = [credentials_document (test_env NotSent) test_citation initial_world,
          credentials_document (test_env NotSent) test_citation
            (snd (invoke (test_env NotSent) (test_client None) FetchType ''t1'' Undefined
               initial_world))]"
proof -
  have i: "inj (tags (test_env NotSent))"
    by (simp add: inj_def test_env_simps)
  have g: "getCitation (client_notary (test_client None)) w = Inr test_citation" for w
    by (simp add: test_client_simps test_notary_def)
  have g': "getCitation test_notary w = Inr test_citation" for w
    by (simp add: test_notary_def)
  note th = credentials_minted_afresh [where E = "test_env NotSent" and c = "test_client None"
      and c' = "test_client None" and citation = test_citation and citation' = test_citation
      and op = FetchType and i = "''t1''" and p = Undefined and w = initial_world
      and op' = QueueMessage and i' = "''q1''" and p' = "Object ''[$foo: 1]''"
      and ?w2.0 = "snd (invoke (test_env NotSent) (test_client None) FetchType ''t1'' Undefined
          initial_world)"]
  from th i g have t: "tags_drawn (snd (invoke (test_env NotSent) (test_client None) FetchType
      ''t1'' Undefined initial_world)) = Suc (tags_drawn initial_world)"
    by blast
  from th i g have n: "notarized (snd (invoke (test_env NotSent) (test_client None) QueueMessage
        ''q1'' (Object ''[$foo: 1]'')
        (snd (invoke (test_env NotSent) (test_client None) FetchType ''t1'' Undefined
          initial_world))))
       = notarized initial_world @
         [credentials_document (test_env NotSent) test_citation initial_world,
          credentials_document (test_env NotSent) test_citation
            (snd (invoke (test_env NotSent) (test_client None) FetchType ''t1'' Undefined
               initial_world))]"
    by blast
  from i g' t n show ?thesis
    by (simp add: credentials_document_tag test_env_simps initial_world_def)
qed

end
